theory Spec2Isabelle
  imports Complex_Main "HOL-Library.Log_Nat"
begin

section \<open>SPICE netlists of essential gates: inverters and buffers\<close>

text \<open>
  A shallow embedding of \<^verbatim>\<open>openfpga/src/fpga_spice/spice_essential_gates.cpp\<close>.

  Conventions of the embedding.
  \<^item> The output stream \<^verbatim>\<open>std::fstream& fp\<close> is a record passed through every function.
    What has been written is kept as the list of finished lines; one line is the
    concatenation of the chunks the source sends with \<^verbatim>\<open><<\<close> up to its
    \<^verbatim>\<open>"\n"\<close>, blanks included.
  \<^item> \<^verbatim>\<open>VTR_ASSERT\<close> stops the program: a function returns either an abort
    or a status code, together with the stream as it stands at that moment.
    \<^verbatim>\<open>VTR_ASSERT_SAFE\<close> occurs only with conditions that the enclosing branch
    has just established, and is left out.
  \<^item> C++ \<^verbatim>\<open>float\<close> and \<^verbatim>\<open>double\<close> quantities (widths, sizes, ratios) are
    IEEE 754 values, and every operation of the source on them rounds as its format
    does, an expression of \<^verbatim>\<open>float\<close> operands being evaluated in \<^verbatim>\<open>float\<close>.
    The size of a buffer, its factor per stage, the ratio of PMOS to NMOS and the
    lengths and widths of the transistors are \<^verbatim>\<open>float\<close>.
  \<^item> The circuit library, the technology library and the module manager are not part
    of these sources. Their queries are the fields of the records below; the constants
    and the helpers of other files that the emitted text depends on are the fields of
    the record \<open>externals\<close>.
\<close>

subsection \<open>Status codes and aborts\<close>

datatype status = CMD_EXEC_SUCCESS | CMD_EXEC_FATAL_ERROR

datatype abort = AssertionViolation | UndefinedBehaviour

subsection \<open>Floating-point numbers\<close>

text \<open>
  A \<^verbatim>\<open>float\<close> or a \<^verbatim>\<open>double\<close> is a finite value, an infinity or a NaN; a finite
  value is the rational number it denotes. The arithmetic follows IEEE 754 in the default
  rounding mode: the exact result is rounded to the nearest value of the format (binary32
  for \<^verbatim>\<open>float\<close>, binary64 for \<^verbatim>\<open>double\<close>), a tie to the one with an even
  significand, a result beyond the largest finite value to an infinity. The sign of a zero
  is not kept: in these functions it could show only in the sign of an infinity, which
  the conversion to \<^verbatim>\<open>int\<close> forgets, and in the text of a length or a width of the
  technology library that is a negative zero.
\<close>

datatype float = Finite rat | PInf | NInf | NaN

text \<open>Rounding to the nearest integer, a tie to the even one.\<close>

definition rne :: "rat \<Rightarrow> int" where
  "rne x = (let f = \<lfloor>x\<rfloor>; d = x - of_int f
            in if d < 1/2 then f else if 1/2 < d then f + 1 else if even f then f else f + 1)"

text \<open>The binary exponent of a positive number: \<open>2 powi ilog2 x \<le> x < 2 powi (ilog2 x + 1)\<close>.\<close>

definition ilog2 :: "rat \<Rightarrow> int" where
  "ilog2 x = (case quotient_of x of
                (a, b) \<Rightarrow> let d = bitlen a - bitlen b in if 2 powi d \<le> x then d else d - 1)"

text \<open>
  Rounding to the binary format with \<open>p\<close> bits of significand and the exponents
  \<open>emin\<close> to \<open>emax\<close>: the values of the format near \<open>x\<close> are the multiples of
  the unit \<open>u\<close> in the last place, which below \<open>2 powi emin\<close> (the subnormal
  values) stays that of \<open>2 powi emin\<close>; a rounded value whose exponent exceeds
  \<open>emax\<close>, that is one of magnitude \<open>2 powi (emax + 1)\<close> or more, overflows.
\<close>

definition round_binary :: "nat \<Rightarrow> int \<Rightarrow> int \<Rightarrow> rat \<Rightarrow> float" where
  "round_binary p emin emax x =
     (if x = 0 then Finite 0
      else let u = 2 powi (max (ilog2 \<bar>x\<bar>) emin - (int p - 1));
               r = of_int (rne (x / u)) * u
           in if r \<noteq> 0 \<and> emax < ilog2 \<bar>r\<bar> then (if 0 < x then PInf else NInf)
              else Finite r)"

definition round_float :: "rat \<Rightarrow> float" where
  "round_float = round_binary 24 (-126) 127"

definition round_double :: "rat \<Rightarrow> float" where
  "round_double = round_binary 53 (-1022) 1023"

fun is_negative :: "float \<Rightarrow> bool" where
  "is_negative (Finite a) = (a < 0)"
| "is_negative NInf = True"
| "is_negative x = False"

text \<open>The product, rounded by \<open>rnd\<close>.\<close>

fun mul_rounded :: "(rat \<Rightarrow> float) \<Rightarrow> float \<Rightarrow> float \<Rightarrow> float" where
  "mul_rounded rnd NaN y = NaN"
| "mul_rounded rnd x NaN = NaN"
| "mul_rounded rnd (Finite a) (Finite b) = rnd (a * b)"
| "mul_rounded rnd (Finite a) y =
     (if a = 0 then NaN else if (a < 0) = is_negative y then PInf else NInf)"
| "mul_rounded rnd x (Finite b) =
     (if b = 0 then NaN else if is_negative x = (b < 0) then PInf else NInf)"
| "mul_rounded rnd x y = (if is_negative x = is_negative y then PInf else NInf)"

definition mul_float :: "float \<Rightarrow> float \<Rightarrow> float" where
  "mul_float = mul_rounded round_float"

definition mul_double :: "float \<Rightarrow> float \<Rightarrow> float" where
  "mul_double = mul_rounded round_double"

text \<open>The quotient of two \<^verbatim>\<open>float\<close>.\<close>

fun div_float :: "float \<Rightarrow> float \<Rightarrow> float" where
  "div_float NaN y = NaN"
| "div_float x NaN = NaN"
| "div_float (Finite a) (Finite b) =
     (if b = 0 then (if a = 0 then NaN else if 0 < a then PInf else NInf)
      else round_float (a / b))"
| "div_float (Finite a) y = Finite 0"
| "div_float x (Finite b) = (if is_negative x = (b < 0) then PInf else NInf)"
| "div_float x y = NaN"

text \<open>\<^verbatim>\<open>std::ceil\<close>.\<close>

fun std_ceil :: "float \<Rightarrow> float" where
  "std_ceil (Finite a) = Finite (of_int \<lceil>a\<rceil>)"
| "std_ceil x = x"

text \<open>\<^verbatim>\<open>std::fmod\<close>: the remainder of the quotient truncated towards zero; it is a
  value of the format, so no rounding takes place.\<close>

fun std_fmod :: "float \<Rightarrow> float \<Rightarrow> float" where
  "std_fmod NaN y = NaN"
| "std_fmod x NaN = NaN"
| "std_fmod (Finite a) (Finite b) =
     (if b = 0 then NaN
      else Finite (a - of_int (if 0 \<le> a / b then \<lfloor>a / b\<rfloor> else \<lceil>a / b\<rceil>) * b))"
| "std_fmod (Finite a) y = Finite a"
| "std_fmod x y = NaN"

text \<open>The comparison \<^verbatim>\<open>0. != x\<close>.\<close>

fun nonzero_float :: "float \<Rightarrow> bool" where
  "nonzero_float (Finite a) = (a \<noteq> 0)"
| "nonzero_float x = True"

text \<open>
  The conversion of a \<^verbatim>\<open>float\<close> to \<^verbatim>\<open>int\<close> (32 bits) truncates. C++ leaves the
  conversion of a value outside the range of \<^verbatim>\<open>int\<close> undefined; the model takes the
  value that the conversion instruction of x86-64 gives for every such value, for an
  infinity and for a NaN: the least \<^verbatim>\<open>int\<close>.
\<close>

fun int_of_float :: "float \<Rightarrow> int" where
  "int_of_float (Finite a) =
     (let t = (if 0 \<le> a then \<lfloor>a\<rfloor> else \<lceil>a\<rceil>)
      in if - (2 ^ 31) \<le> t \<and> t < 2 ^ 31 then t else - (2 ^ 31))"
| "int_of_float x = - (2 ^ 31)"

text \<open>
  \<^verbatim>\<open>std::pow(x, level)\<close> with a \<^verbatim>\<open>float\<close> \<open>x\<close> and a \<^verbatim>\<open>size_t\<close> \<open>level\<close>: both
  are converted to \<^verbatim>\<open>double\<close> and the result is a \<^verbatim>\<open>double\<close>, taken to be the
  power rounded to the nearest \<^verbatim>\<open>double\<close>.
\<close>

fun std_pow :: "float \<Rightarrow> nat \<Rightarrow> float" where
  "std_pow x 0 = Finite 1"
| "std_pow (Finite a) n = round_double (a ^ n)"
| "std_pow PInf n = PInf"
| "std_pow NInf n = (if odd n then NInf else PInf)"
| "std_pow NaN n = NaN"

text \<open>The conversion of a \<^verbatim>\<open>double\<close> to \<^verbatim>\<open>float\<close>.\<close>

fun float_of_double :: "float \<Rightarrow> float" where
  "float_of_double (Finite a) = round_float a"
| "float_of_double x = x"

text \<open>The order \<^verbatim>\<open><=\<close> of two \<^verbatim>\<open>float\<close> or \<^verbatim>\<open>double\<close>; a NaN is not
  comparable.\<close>

fun float_le :: "float \<Rightarrow> float \<Rightarrow> bool" where
  "float_le (Finite a) (Finite b) = (a \<le> b)"
| "float_le (Finite a) PInf = True"
| "float_le NInf (Finite b) = True"
| "float_le NInf NInf = True"
| "float_le NInf PInf = True"
| "float_le PInf PInf = True"
| "float_le x y = False"



subsection \<open>The technology library\<close>

datatype e_tech_lib_transistor_type = TECH_LIB_TRANSISTOR_PMOS | TECH_LIB_TRANSISTOR_NMOS

datatype e_tech_lib_model_type = TECH_LIB_MODEL_TRANSISTOR | TECH_LIB_MODEL_OTHER

record technology_model =
  model_ref :: string
  tech_model_type :: e_tech_lib_model_type
  model_pn_ratio :: float
  transistor_model_name :: "e_tech_lib_transistor_type \<Rightarrow> string"
  transistor_model_chan_length :: "e_tech_lib_transistor_type \<Rightarrow> float"
  transistor_model_min_width :: "e_tech_lib_transistor_type \<Rightarrow> float"
  transistor_model_max_width :: "e_tech_lib_transistor_type \<Rightarrow> float"

text \<open>The library lists its models in the order of \<^verbatim>\<open>tech_lib.models()\<close>; a
  \<^verbatim>\<open>TechnologyModelId\<close> is a position in that list.\<close>

type_synonym technology_library = "technology_model list"

definition valid_model_id :: "technology_library \<Rightarrow> nat \<Rightarrow> bool" where
  "valid_model_id tech_lib tech_model = (tech_model < length tech_lib)"

subsection \<open>The circuit library\<close>

record circuit_port =
  port_prefix :: string
  port_size :: nat
  pins :: "nat list"

datatype e_circuit_model_type =
  CIRCUIT_MODEL_INVBUF | CIRCUIT_MODEL_PASSGATE | CIRCUIT_MODEL_GATE | CIRCUIT_MODEL_OTHER

datatype e_circuit_model_buffer_type = CIRCUIT_MODEL_BUF_INV | CIRCUIT_MODEL_BUF_BUF

text \<open>
  \<open>input_ports\<close> and \<open>output_ports\<close> are the results of
  \<^verbatim>\<open>model_ports_by_type(circuit_model, CIRCUIT_MODEL_PORT_INPUT, true)\<close> and of the
  same query for \<^verbatim>\<open>CIRCUIT_MODEL_PORT_OUTPUT\<close>. \<open>power_gate_en_port\<close> and
  \<open>power_gate_enb_port\<close> are the results of
  \<^verbatim>\<open>find_circuit_model_power_gate_en_port\<close> and
  \<^verbatim>\<open>find_circuit_model_power_gate_enb_port\<close>, \<open>None\<close> being an invalid port id.
\<close>

record circuit_model =
  model_id :: nat
  model_name :: string
  model_type :: e_circuit_model_type
  model_circuit_netlist :: string
  buffer_type :: e_circuit_model_buffer_type
  is_power_gated :: bool
  buffer_size :: float
  buffer_num_levels :: nat
  buffer_f_per_stage :: float
  input_ports :: "circuit_port list"
  output_ports :: "circuit_port list"
  power_gate_en_port :: "circuit_port option"
  power_gate_enb_port :: "circuit_port option"

subsection \<open>The module manager\<close>

record spice_module =
  mod_name :: string
  mod_ports :: "string list"

type_synonym module_manager = "spice_module list"

text \<open>Modelled from the spec: the module manager (not part of the sources) resolves the
  name of a circuit model to the module that was built for it. A \<^verbatim>\<open>ModuleId\<close> is
  the module it denotes, \<open>None\<close> being \<^verbatim>\<open>ModuleId::INVALID()\<close>.\<close>

definition find_module :: "module_manager \<Rightarrow> string \<Rightarrow> spice_module option" where
  "find_module module_manager name = List.find (\<lambda>m. mod_name m = name) module_manager"

subsection \<open>Constants and helpers of other files\<close>

datatype e_netlist_type = SUBMODULE_NETLIST | OTHER_NETLIST

text \<open>
  \<open>spice_file_header usage\<close> are the lines that \<^verbatim>\<open>print_spice_file_header(fp, usage)\<close>
  writes.
  \<open>float_text w\<close> is what \<^verbatim>\<open>fp << std::setprecision(10) << w\<close> prints.
  \<open>generate_spice_port name lsb msb\<close> is \<^verbatim>\<open>generate_spice_port(BasicPort(name, lsb, msb))\<close>.
  \<open>add_netlist\<close> returns the new \<^verbatim>\<open>NetlistId\<close>, \<open>None\<close> being
  \<^verbatim>\<open>NetlistId::INVALID()\<close>, and the updated manager.
\<close>

record 'nm externals =
  TRANSISTOR_WRAPPER_POSTFIX :: string
  TRANSISTORS_SPICE_FILE_NAME :: string
  ESSENTIALS_SPICE_FILE_NAME :: string
  float_text :: "float \<Rightarrow> string"
  generate_spice_port :: "string \<Rightarrow> nat \<Rightarrow> nat \<Rightarrow> string"
  spice_file_header :: "string \<Rightarrow> string list"
  add_netlist :: "'nm \<Rightarrow> string \<Rightarrow> nat option \<times> 'nm"
  set_netlist_type :: "'nm \<Rightarrow> nat \<Rightarrow> e_netlist_type \<Rightarrow> 'nm"

subsection \<open>The output stream\<close>

record fstream =
  is_open :: bool
  good :: bool
  written :: "string list"

text \<open>Modelled from the spec: \<^verbatim>\<open>valid_file_stream\<close> (its file is not part of the
  sources) tells whether the output stream is open and writable.\<close>

definition valid_file_stream :: "fstream \<Rightarrow> bool" where
  "valid_file_stream fp = (is_open fp \<and> good fp)"

text \<open>Writing to a stream that is not valid leaves it as it is.\<close>

definition put_line :: "fstream \<Rightarrow> string \<Rightarrow> fstream" where
  "put_line fp l = (if valid_file_stream fp then fp\<lparr>written := written fp @ [l]\<rparr> else fp)"

definition put_lines :: "fstream \<Rightarrow> string list \<Rightarrow> fstream" where
  "put_lines fp ls = fold (\<lambda>l fp'. put_line fp' l) ls fp"

definition fclose :: "fstream \<Rightarrow> fstream" where
  "fclose fp = fp\<lparr>is_open := False\<rparr>"

type_synonym emit_result = "(abort + status) \<times> fstream"

definition VTR_ASSERT :: "bool \<Rightarrow> fstream \<Rightarrow> emit_result \<Rightarrow> emit_result" where
  "VTR_ASSERT c fp continue = (if c then continue else (Inl AssertionViolation, fp))"

text \<open>
  A loop whose body returns a status and that returns from the enclosing function as soon
  as the status is \<^verbatim>\<open>CMD_EXEC_FATAL_ERROR\<close>. The result \<open>Inr CMD_EXEC_SUCCESS\<close>
  says that the loop ran to its end.
\<close>

fun for_each :: "('a \<Rightarrow> fstream \<Rightarrow> emit_result) \<Rightarrow> 'a list \<Rightarrow> fstream \<Rightarrow> emit_result" where
  "for_each body [] fp = (Inr CMD_EXEC_SUCCESS, fp)"
| "for_each body (x # xs) fp =
     (case body x fp of
        (Inr CMD_EXEC_SUCCESS, fp') \<Rightarrow> for_each body xs fp'
      | r \<Rightarrow> r)"

subsection \<open>Numbers and their text\<close>

definition digit_char :: "nat \<Rightarrow> char" where
  "digit_char d = ''0123456789'' ! d"

text \<open>\<^verbatim>\<open>std::to_string\<close> on a \<^verbatim>\<open>size_t\<close> or a non-negative \<^verbatim>\<open>int\<close>.\<close>

fun to_string :: "nat \<Rightarrow> string" where
  "to_string n =
     (if n < 10 then [digit_char n] else to_string (n div 10) @ [digit_char (n mod 10)])"

declare to_string.simps [simp del]

subsection \<open>Width bins\<close>

text \<open>
  The bin loop shared by the four subcircuit writers, all of its variables but the two
  \<^verbatim>\<open>int\<close> being \<^verbatim>\<open>float\<close>:
  \<^verbatim>\<open>
  int num_bins = std::ceil(total_width / regular_bin_width);
  float last_bin_width = std::fmod(total_width, regular_bin_width);
  for (int ibin = 0; ibin < num_bins; ++ibin) {
    float curr_bin_width = regular_bin_width;
    if ((ibin == num_bins - 1) && (0. != last_bin_width)) {
      curr_bin_width = last_bin_width;
    }
    ...
  }\<close>
  \<open>bin_widths\<close> is the sequence of \<^verbatim>\<open>curr_bin_width\<close>, one per iteration.
\<close>

definition bin_widths :: "float \<Rightarrow> float \<Rightarrow> float list" where
  "bin_widths total_width regular_bin_width =
     (let num_bins = int_of_float (std_ceil (div_float total_width regular_bin_width));
          last_bin_width = std_fmod total_width regular_bin_width
      in map (\<lambda>ibin. if int ibin = num_bins - 1 \<and> nonzero_float last_bin_width
                       then last_bin_width else regular_bin_width)
             [0..<nat num_bins])"

subsection \<open>Wrappers of the technology transistors\<close>

definition transistor_wrapper_lines ::
  "'nm externals \<Rightarrow> technology_model \<Rightarrow> e_tech_lib_transistor_type \<Rightarrow> string list" where
  "transistor_wrapper_lines ext model trans_type =
     [''.subckt '' @ transistor_model_name model trans_type @ TRANSISTOR_WRAPPER_POSTFIX ext
        @ '' drain gate source bulk''
        @ '' L='' @ float_text ext (transistor_model_chan_length model trans_type)
        @ '' W='' @ float_text ext (transistor_model_min_width model trans_type),
      model_ref model @ ''1'' @ '' drain gate source bulk''
        @ '' '' @ transistor_model_name model trans_type @ '' L=L W=W'',
      ''.ends'']"

definition print_spice_transistor_model_wrapper ::
  "'nm externals \<Rightarrow> fstream \<Rightarrow> technology_model \<Rightarrow> status \<times> fstream" where
  "print_spice_transistor_model_wrapper ext fp model =
     (if \<not> valid_file_stream fp then (CMD_EXEC_FATAL_ERROR, fp)
      else (CMD_EXEC_SUCCESS,
            fold (\<lambda>trans_type fp'. put_lines fp' (transistor_wrapper_lines ext model trans_type))
              [TECH_LIB_TRANSISTOR_PMOS, TECH_LIB_TRANSISTOR_NMOS] fp))"

text \<open>
  The loop of \<^verbatim>\<open>print_spice_transistor_wrapper\<close> over \<^verbatim>\<open>tech_lib.models()\<close>:
  \<^verbatim>\<open>
  if (TECH_LIB_MODEL_TRANSISTOR != tech_lib.model_type(model)) { continue; }
  if (CMD_EXEC_SUCCESS == print_spice_transistor_model_wrapper(fp, tech_lib, model)) {
    return CMD_EXEC_FATAL_ERROR;
  }\<close>
  \<open>Some st\<close> is a return from inside the loop, \<open>None\<close> the end of the loop.
\<close>

fun transistor_models_loop ::
  "'nm externals \<Rightarrow> technology_model list \<Rightarrow> fstream \<Rightarrow> status option \<times> fstream" where
  "transistor_models_loop ext [] fp = (None, fp)"
| "transistor_models_loop ext (model # rest) fp =
     (if TECH_LIB_MODEL_TRANSISTOR \<noteq> tech_model_type model
      then transistor_models_loop ext rest fp
      else (case print_spice_transistor_model_wrapper ext fp model of
              (st, fp') \<Rightarrow>
                if CMD_EXEC_SUCCESS = st then (Some CMD_EXEC_FATAL_ERROR, fp')
                else transistor_models_loop ext rest fp'))"

text \<open>
  The end of both netlist writers: close the stream, add the file name to the netlist
  manager, \<^verbatim>\<open>VTR_ASSERT(NetlistId::INVALID() != nlist_id)\<close>, tag the netlist, return.
\<close>

definition close_and_register ::
  "'nm externals \<Rightarrow> fstream \<Rightarrow> 'nm \<Rightarrow> string \<Rightarrow> status \<Rightarrow> (abort + status) \<times> fstream \<times> 'nm" where
  "close_and_register ext fp netlist_manager spice_fname st =
     (let fp' = fclose fp in
      case add_netlist ext netlist_manager spice_fname of
        (None, nm') \<Rightarrow> (Inl AssertionViolation, fp', nm')
      | (Some nlist_id, nm') \<Rightarrow>
          (Inr st, fp', set_netlist_type ext nm' nlist_id SUBMODULE_NETLIST))"

text \<open>
  \<open>fp0\<close> is the stream after \<^verbatim>\<open>fp.open\<close> and \<^verbatim>\<open>check_file_stream\<close>, which
  are not part of the sources.
\<close>

definition print_spice_transistor_wrapper ::
  "'nm externals \<Rightarrow> 'nm \<Rightarrow> technology_library \<Rightarrow> string \<Rightarrow> fstream
     \<Rightarrow> (abort + status) \<times> fstream \<times> 'nm" where
  "print_spice_transistor_wrapper ext netlist_manager tech_lib submodule_dir fp0 =
     (let spice_fname = submodule_dir @ TRANSISTORS_SPICE_FILE_NAME ext;
          fp = put_lines fp0 (spice_file_header ext ''Transistor wrappers'')
      in case transistor_models_loop ext tech_lib fp of
           (Some st, fp') \<Rightarrow> (Inr st, fp', netlist_manager)
         | (None, fp') \<Rightarrow>
             close_and_register ext fp' netlist_manager spice_fname CMD_EXEC_SUCCESS)"

subsection \<open>One half of a power-gated stage\<close>

text \<open>One line of the chain of power-gating transistors, for one pin of the enable-bar
  port. \<open>first_enb_pin\<close> and \<open>last_enb_pin\<close> are the loop's variables.\<close>

definition pmos_powergate_line ::
  "'nm externals \<Rightarrow> string \<Rightarrow> string \<Rightarrow> circuit_port \<Rightarrow> technology_model \<Rightarrow> float
     \<Rightarrow> bool \<Rightarrow> nat \<Rightarrow> nat \<Rightarrow> string" where
  "pmos_powergate_line ext trans_name_postfix output_port_name enb_port tech_model trans_width
      first_enb_pin last_enb_pin power_gate_pin =
     ''Xpmos_powergate_'' @ trans_name_postfix @ ''_pin_'' @ to_string power_gate_pin @ '' ''
     @ (if first_enb_pin
        then output_port_name @ ''_pmos_pg_'' @ to_string power_gate_pin @ '' ''
           @ generate_spice_port ext (port_prefix enb_port) power_gate_pin power_gate_pin @ '' ''
           @ ''LVDD ''
           @ ''LVDD ''
        else output_port_name @ ''_pmos_pg_'' @ to_string last_enb_pin @ '' ''
           @ generate_spice_port ext (port_prefix enb_port) power_gate_pin power_gate_pin @ '' ''
           @ output_port_name @ ''_pmos_pg_'' @ to_string power_gate_pin @ '' ''
           @ ''LVDD '')
     @ transistor_model_name tech_model TECH_LIB_TRANSISTOR_PMOS @ TRANSISTOR_WRAPPER_POSTFIX ext
     @ '' W='' @ float_text ext trans_width"

fun pmos_powergate_pins ::
  "'nm externals \<Rightarrow> string \<Rightarrow> string \<Rightarrow> circuit_port \<Rightarrow> technology_model \<Rightarrow> float
     \<Rightarrow> nat list \<Rightarrow> bool \<Rightarrow> nat \<Rightarrow> fstream \<Rightarrow> fstream" where
  "pmos_powergate_pins ext postfix out enb_port tech_model w [] first_enb_pin last_enb_pin fp = fp"
| "pmos_powergate_pins ext postfix out enb_port tech_model w (power_gate_pin # rest)
      first_enb_pin last_enb_pin fp =
     pmos_powergate_pins ext postfix out enb_port tech_model w rest False power_gate_pin
       (put_line fp (pmos_powergate_line ext postfix out enb_port tech_model w
                       first_enb_pin last_enb_pin power_gate_pin))"

text \<open>The line of the transistor of the stage itself, written after the chain; the last
  pin is \<^verbatim>\<open>circuit_lib.pins(enb_port).back()\<close>.\<close>

definition pmos_powergated_core_line ::
  "'nm externals \<Rightarrow> string \<Rightarrow> string \<Rightarrow> string \<Rightarrow> circuit_port \<Rightarrow> technology_model \<Rightarrow> float
     \<Rightarrow> string" where
  "pmos_powergated_core_line ext trans_name_postfix input_port_name output_port_name enb_port
      tech_model trans_width =
     ''Xpmos_'' @ trans_name_postfix @ '' ''
     @ output_port_name @ '' ''
     @ input_port_name @ '' ''
     @ output_port_name @ ''_pmos_pg_'' @ to_string (last (pins enb_port)) @ '' ''
     @ ''LVDD ''
     @ transistor_model_name tech_model TECH_LIB_TRANSISTOR_PMOS @ TRANSISTOR_WRAPPER_POSTFIX ext
     @ '' W='' @ float_text ext trans_width"

text \<open>\<^verbatim>\<open>last_enb_pin\<close> is not initialised in the source; it is read only after the first
  iteration has assigned it, so the \<open>0\<close> it starts with here is never printed.
  \<^verbatim>\<open>circuit_lib.pins(enb_port).back()\<close> on a port without pins has no defined behaviour.\<close>

definition print_spice_powergated_inverter_pmos_modeling ::
  "'nm externals \<Rightarrow> fstream \<Rightarrow> string \<Rightarrow> string \<Rightarrow> string \<Rightarrow> circuit_port
     \<Rightarrow> technology_model \<Rightarrow> float \<Rightarrow> emit_result" where
  "print_spice_powergated_inverter_pmos_modeling ext fp trans_name_postfix input_port_name
      output_port_name enb_port tech_model trans_width =
     (if \<not> valid_file_stream fp then (Inr CMD_EXEC_FATAL_ERROR, fp)
      else
        let fp1 = pmos_powergate_pins ext trans_name_postfix output_port_name enb_port tech_model
                    trans_width (pins enb_port) True 0 fp
        in if pins enb_port = [] then (Inl UndefinedBehaviour, fp1)
           else (Inr CMD_EXEC_SUCCESS,
                 put_line fp1
                   (pmos_powergated_core_line ext trans_name_postfix input_port_name
                      output_port_name enb_port tech_model trans_width)))"

definition nmos_powergate_line ::
  "'nm externals \<Rightarrow> string \<Rightarrow> string \<Rightarrow> circuit_port \<Rightarrow> technology_model \<Rightarrow> float
     \<Rightarrow> bool \<Rightarrow> nat \<Rightarrow> nat \<Rightarrow> string" where
  "nmos_powergate_line ext trans_name_postfix output_port_name en_port tech_model trans_width
      first_en_pin last_en_pin power_gate_pin =
     ''Xnmos_powergate_'' @ trans_name_postfix @ ''_pin_'' @ to_string power_gate_pin @ '' ''
     @ (if first_en_pin
        then output_port_name @ ''_nmos_pg_'' @ to_string power_gate_pin @ '' ''
           @ generate_spice_port ext (port_prefix en_port) power_gate_pin power_gate_pin @ '' ''
           @ ''LGND ''
           @ ''LGND ''
        else output_port_name @ ''_nmos_pg_'' @ to_string last_en_pin @ '' ''
           @ port_prefix en_port @ '' ''
           @ output_port_name @ ''_nmos_pg_'' @ to_string power_gate_pin @ '' ''
           @ ''LGND '')
     @ transistor_model_name tech_model TECH_LIB_TRANSISTOR_NMOS @ TRANSISTOR_WRAPPER_POSTFIX ext
     @ '' W='' @ float_text ext trans_width"

fun nmos_powergate_pins ::
  "'nm externals \<Rightarrow> string \<Rightarrow> string \<Rightarrow> circuit_port \<Rightarrow> technology_model \<Rightarrow> float
     \<Rightarrow> nat list \<Rightarrow> bool \<Rightarrow> nat \<Rightarrow> fstream \<Rightarrow> fstream" where
  "nmos_powergate_pins ext postfix out en_port tech_model w [] first_en_pin last_en_pin fp = fp"
| "nmos_powergate_pins ext postfix out en_port tech_model w (power_gate_pin # rest)
      first_en_pin last_en_pin fp =
     nmos_powergate_pins ext postfix out en_port tech_model w rest False power_gate_pin
       (put_line fp (nmos_powergate_line ext postfix out en_port tech_model w
                       first_en_pin last_en_pin power_gate_pin))"

definition nmos_powergated_core_line ::
  "'nm externals \<Rightarrow> string \<Rightarrow> string \<Rightarrow> string \<Rightarrow> circuit_port \<Rightarrow> technology_model \<Rightarrow> float
     \<Rightarrow> string" where
  "nmos_powergated_core_line ext trans_name_postfix input_port_name output_port_name en_port
      tech_model trans_width =
     ''Xnmos_'' @ trans_name_postfix @ '' ''
     @ output_port_name @ '' ''
     @ input_port_name @ '' ''
     @ output_port_name @ '' _nmos_pg_'' @ to_string (last (pins en_port)) @ '' ''
     @ ''LGND ''
     @ transistor_model_name tech_model TECH_LIB_TRANSISTOR_NMOS @ TRANSISTOR_WRAPPER_POSTFIX ext
     @ '' W='' @ float_text ext trans_width"

definition print_spice_powergated_inverter_nmos_modeling ::
  "'nm externals \<Rightarrow> fstream \<Rightarrow> string \<Rightarrow> string \<Rightarrow> string \<Rightarrow> circuit_port
     \<Rightarrow> technology_model \<Rightarrow> float \<Rightarrow> emit_result" where
  "print_spice_powergated_inverter_nmos_modeling ext fp trans_name_postfix input_port_name
      output_port_name en_port tech_model trans_width =
     (if \<not> valid_file_stream fp then (Inr CMD_EXEC_FATAL_ERROR, fp)
      else
        let fp1 = nmos_powergate_pins ext trans_name_postfix output_port_name en_port tech_model
                    trans_width (pins en_port) True 0 fp
        in if pins en_port = [] then (Inl UndefinedBehaviour, fp1)
           else (Inr CMD_EXEC_SUCCESS,
                 put_line fp1
                   (nmos_powergated_core_line ext trans_name_postfix input_port_name
                      output_port_name en_port tech_model trans_width)))"

subsection \<open>One half of a regular stage\<close>

definition print_spice_regular_inverter_pmos_modeling ::
  "'nm externals \<Rightarrow> fstream \<Rightarrow> string \<Rightarrow> string \<Rightarrow> string \<Rightarrow> technology_model \<Rightarrow> float
     \<Rightarrow> emit_result" where
  "print_spice_regular_inverter_pmos_modeling ext fp trans_name_postfix input_port_name
      output_port_name tech_model trans_width =
     (if \<not> valid_file_stream fp then (Inr CMD_EXEC_FATAL_ERROR, fp)
      else (Inr CMD_EXEC_SUCCESS,
            put_line fp
              (''Xpmos_'' @ trans_name_postfix @ '' ''
               @ output_port_name @ '' ''
               @ input_port_name @ '' ''
               @ ''LVDD ''
               @ ''LVDD ''
               @ transistor_model_name tech_model TECH_LIB_TRANSISTOR_PMOS
               @ TRANSISTOR_WRAPPER_POSTFIX ext
               @ '' W='' @ float_text ext trans_width)))"

definition print_spice_regular_inverter_nmos_modeling ::
  "'nm externals \<Rightarrow> fstream \<Rightarrow> string \<Rightarrow> string \<Rightarrow> string \<Rightarrow> technology_model \<Rightarrow> float
     \<Rightarrow> emit_result" where
  "print_spice_regular_inverter_nmos_modeling ext fp trans_name_postfix input_port_name
      output_port_name tech_model trans_width =
     (if \<not> valid_file_stream fp then (Inr CMD_EXEC_FATAL_ERROR, fp)
      else (Inr CMD_EXEC_SUCCESS,
            put_line fp
              (''Xnmos_'' @ trans_name_postfix @ '' ''
               @ output_port_name @ '' ''
               @ input_port_name @ '' ''
               @ ''LGND ''
               @ ''LGND ''
               @ transistor_model_name tech_model TECH_LIB_TRANSISTOR_NMOS
               @ TRANSISTOR_WRAPPER_POSTFIX ext
               @ '' W='' @ float_text ext trans_width)))"

subsection \<open>The frame of a subcircuit\<close>

fun join_blank :: "string list \<Rightarrow> string" where
  "join_blank [] = []"
| "join_blank [p] = p"
| "join_blank (p # q # ps) = p @ '' '' @ join_blank (q # ps)"

text \<open>Modelled from the spec: \<^verbatim>\<open>print_spice_subckt_definition\<close> and
  \<^verbatim>\<open>print_spice_subckt_end\<close> (their file is not part of the sources) write the frame
  \<^verbatim>\<open>.subckt <moduleName> <ports>\<close> ... \<^verbatim>\<open>.ends\<close>; the name and the ports are
  those of the module, so an invalid module id is an abort.\<close>

definition print_spice_subckt_definition :: "fstream \<Rightarrow> spice_module option \<Rightarrow> emit_result" where
  "print_spice_subckt_definition fp module_id =
     (case module_id of
        None \<Rightarrow> (Inl AssertionViolation, fp)
      | Some m \<Rightarrow>
          (Inr CMD_EXEC_SUCCESS,
           put_line fp (''.subckt '' @ mod_name m @ '' '' @ join_blank (mod_ports m))))"

definition print_spice_subckt_end :: "fstream \<Rightarrow> spice_module option \<Rightarrow> fstream" where
  "print_spice_subckt_end fp module_id = put_line fp ''.ends''"

subsection \<open>Inverters\<close>

text \<open>The two assertions on the ports:
  \<^verbatim>\<open>VTR_ASSERT( (1 == ports.size()) && (1 == circuit_lib.port_size(ports[0])) )\<close>.\<close>

definition one_scalar_port :: "circuit_port list \<Rightarrow> bool" where
  "one_scalar_port ports = (1 = length ports \<and> 1 = port_size (ports ! 0))"

definition print_spice_powergated_inverter_subckt ::
  "'nm externals \<Rightarrow> fstream \<Rightarrow> spice_module option \<Rightarrow> circuit_model \<Rightarrow> technology_model
     \<Rightarrow> emit_result" where
  "print_spice_powergated_inverter_subckt ext fp module_id circuit_model tech_model =
     (if \<not> valid_file_stream fp then (Inr CMD_EXEC_FATAL_ERROR, fp)
      else case print_spice_subckt_definition fp module_id of
        (Inl a, fp0) \<Rightarrow> (Inl a, fp0)
      | (Inr _, fp0) \<Rightarrow>
        VTR_ASSERT (one_scalar_port (input_ports circuit_model)) fp0 (
        VTR_ASSERT (one_scalar_port (output_ports circuit_model)) fp0 (
        VTR_ASSERT (is_power_gated circuit_model) fp0 (
        case power_gate_en_port circuit_model of
          None \<Rightarrow> (Inl AssertionViolation, fp0)
        | Some en_port \<Rightarrow>
        case power_gate_enb_port circuit_model of
          None \<Rightarrow> (Inl AssertionViolation, fp0)
        | Some enb_port \<Rightarrow>
        let regular_pmos_bin_width = transistor_model_max_width tech_model TECH_LIB_TRANSISTOR_PMOS;
            total_pmos_width =
              mul_float (mul_float (buffer_size circuit_model) (model_pn_ratio tech_model))
                (transistor_model_min_width tech_model TECH_LIB_TRANSISTOR_PMOS)
        in case for_each
                  (\<lambda>(ibin, curr_bin_width) fp'.
                     print_spice_powergated_inverter_pmos_modeling ext fp'
                       (to_string ibin)
                       (port_prefix (input_ports circuit_model ! 0))
                       (port_prefix (output_ports circuit_model ! 0))
                       enb_port tech_model curr_bin_width)
                  (enumerate 0 (bin_widths total_pmos_width regular_pmos_bin_width)) fp0 of
          (Inr CMD_EXEC_SUCCESS, fp1) \<Rightarrow>
            let regular_nmos_bin_width = transistor_model_max_width tech_model TECH_LIB_TRANSISTOR_NMOS;
                total_nmos_width =
                  mul_float (buffer_size circuit_model)
                    (transistor_model_min_width tech_model TECH_LIB_TRANSISTOR_NMOS)
            in (case for_each
                      (\<lambda>(ibin, curr_bin_width) fp'.
                         print_spice_powergated_inverter_nmos_modeling ext fp'
                           (to_string ibin)
                           (port_prefix (input_ports circuit_model ! 0))
                           (port_prefix (output_ports circuit_model ! 0))
                           en_port tech_model curr_bin_width)
                      (enumerate 0 (bin_widths total_nmos_width regular_nmos_bin_width)) fp1 of
                  (Inr CMD_EXEC_SUCCESS, fp2) \<Rightarrow>
                    (Inr CMD_EXEC_SUCCESS, print_spice_subckt_end fp2 module_id)
                | r \<Rightarrow> r)
        | r \<Rightarrow> r))))"

definition print_spice_regular_inverter_subckt ::
  "'nm externals \<Rightarrow> fstream \<Rightarrow> spice_module option \<Rightarrow> circuit_model \<Rightarrow> technology_model
     \<Rightarrow> emit_result" where
  "print_spice_regular_inverter_subckt ext fp module_id circuit_model tech_model =
     (if \<not> valid_file_stream fp then (Inr CMD_EXEC_FATAL_ERROR, fp)
      else case print_spice_subckt_definition fp module_id of
        (Inl a, fp0) \<Rightarrow> (Inl a, fp0)
      | (Inr _, fp0) \<Rightarrow>
        VTR_ASSERT (one_scalar_port (input_ports circuit_model)) fp0 (
        VTR_ASSERT (one_scalar_port (output_ports circuit_model)) fp0 (
        let regular_pmos_bin_width = transistor_model_max_width tech_model TECH_LIB_TRANSISTOR_PMOS;
            total_pmos_width =
              mul_float (mul_float (buffer_size circuit_model) (model_pn_ratio tech_model))
                (transistor_model_min_width tech_model TECH_LIB_TRANSISTOR_PMOS)
        in case for_each
                  (\<lambda>(ibin, curr_bin_width) fp'.
                     print_spice_regular_inverter_pmos_modeling ext fp'
                       (to_string ibin)
                       (port_prefix (input_ports circuit_model ! 0))
                       (port_prefix (output_ports circuit_model ! 0))
                       tech_model curr_bin_width)
                  (enumerate 0 (bin_widths total_pmos_width regular_pmos_bin_width)) fp0 of
          (Inr CMD_EXEC_SUCCESS, fp1) \<Rightarrow>
            let regular_nmos_bin_width = transistor_model_max_width tech_model TECH_LIB_TRANSISTOR_NMOS;
                total_nmos_width =
                  mul_float (buffer_size circuit_model)
                    (transistor_model_min_width tech_model TECH_LIB_TRANSISTOR_NMOS)
            in (case for_each
                      (\<lambda>(ibin, curr_bin_width) fp'.
                         print_spice_regular_inverter_nmos_modeling ext fp'
                           (to_string ibin)
                           (port_prefix (input_ports circuit_model ! 0))
                           (port_prefix (output_ports circuit_model ! 0))
                           tech_model curr_bin_width)
                      (enumerate 0 (bin_widths total_nmos_width regular_nmos_bin_width)) fp1 of
                  (Inr CMD_EXEC_SUCCESS, fp2) \<Rightarrow>
                    (Inr CMD_EXEC_SUCCESS, print_spice_subckt_end fp2 module_id)
                | r \<Rightarrow> r)
        | r \<Rightarrow> r)))"

definition print_spice_inverter_subckt ::
  "'nm externals \<Rightarrow> fstream \<Rightarrow> spice_module option \<Rightarrow> circuit_model \<Rightarrow> technology_model
     \<Rightarrow> emit_result" where
  "print_spice_inverter_subckt ext fp module_id circuit_model tech_model =
     (if is_power_gated circuit_model
      then print_spice_powergated_inverter_subckt ext fp module_id circuit_model tech_model
      else print_spice_regular_inverter_subckt ext fp module_id circuit_model tech_model)"

subsection \<open>Multi-stage buffers\<close>

text \<open>
  The array of the widths of the stages:
  \<^verbatim>\<open>
  std::vector<float> buffer_widths(circuit_lib.buffer_num_levels(circuit_model), 1);
  for (size_t level = 0; level < circuit_lib.buffer_num_levels(circuit_model); ++level) {
    buffer_widths[level] = circuit_lib.buffer_size(circuit_model)
                         * std::pow(circuit_lib.buffer_f_per_stage(circuit_model), level);
  }\<close>
\<close>

text \<open>The power is a \<^verbatim>\<open>double\<close>, so the product is one of two \<^verbatim>\<open>double\<close>; the
  assignment to the element of the vector converts it to \<^verbatim>\<open>float\<close>.\<close>

definition buffer_widths :: "circuit_model \<Rightarrow> float list" where
  "buffer_widths circuit_model =
     fold (\<lambda>level widths.
             widths[level := float_of_double
                               (mul_double (buffer_size circuit_model)
                                  (std_pow (buffer_f_per_stage circuit_model) level))])
          [0..<buffer_num_levels circuit_model]
          (replicate (buffer_num_levels circuit_model) (Finite 1))"

text \<open>
  The body of the loop over the levels. The source builds \<^verbatim>\<open>input_port_name\<close> and
  \<^verbatim>\<open>output_port_name\<close> for the level and then calls the transistor writers with
  \<^verbatim>\<open>circuit_lib.port_prefix(input_ports[0])\<close> and
  \<^verbatim>\<open>circuit_lib.port_prefix(output_ports[0])\<close>.
\<close>

definition powergated_buffer_level ::
  "'nm externals \<Rightarrow> circuit_model \<Rightarrow> technology_model \<Rightarrow> circuit_port \<Rightarrow> circuit_port
     \<Rightarrow> float list \<Rightarrow> nat \<Rightarrow> fstream \<Rightarrow> emit_result" where
  "powergated_buffer_level ext circuit_model tech_model en_port enb_port widths level fp =
     (let input_port_name = port_prefix (input_ports circuit_model ! 0)
            @ (if 0 = level then [] else ''_level'' @ to_string (level - 1));
          output_port_name = port_prefix (output_ports circuit_model ! 0)
            @ (if 0 = level then ''_level'' @ to_string level else []);
          regular_pmos_bin_width = transistor_model_max_width tech_model TECH_LIB_TRANSISTOR_PMOS;
          total_pmos_width =
              mul_float (mul_float (widths ! level) (model_pn_ratio tech_model))
                (transistor_model_min_width tech_model TECH_LIB_TRANSISTOR_PMOS)
      in case for_each
                (\<lambda>(ibin, curr_bin_width) fp'.
                   print_spice_powergated_inverter_pmos_modeling ext fp'
                     (''level'' @ to_string level @ ''_bin'' @ to_string ibin)
                     (port_prefix (input_ports circuit_model ! 0))
                     (port_prefix (output_ports circuit_model ! 0))
                     enb_port tech_model curr_bin_width)
                (enumerate 0 (bin_widths total_pmos_width regular_pmos_bin_width)) fp of
        (Inr CMD_EXEC_SUCCESS, fp1) \<Rightarrow>
          let regular_nmos_bin_width = transistor_model_max_width tech_model TECH_LIB_TRANSISTOR_NMOS;
              total_nmos_width =
                  mul_float (widths ! level)
                    (transistor_model_min_width tech_model TECH_LIB_TRANSISTOR_NMOS)
          in for_each
               (\<lambda>(ibin, curr_bin_width) fp'.
                  print_spice_powergated_inverter_nmos_modeling ext fp'
                    (''level'' @ to_string level @ ''_bin'' @ to_string ibin)
                    (port_prefix (input_ports circuit_model ! 0))
                    (port_prefix (output_ports circuit_model ! 0))
                    en_port tech_model curr_bin_width)
               (enumerate 0 (bin_widths total_nmos_width regular_nmos_bin_width)) fp1
      | r \<Rightarrow> r)"

definition print_spice_powergated_buffer_subckt ::
  "'nm externals \<Rightarrow> fstream \<Rightarrow> spice_module option \<Rightarrow> circuit_model \<Rightarrow> technology_model
     \<Rightarrow> emit_result" where
  "print_spice_powergated_buffer_subckt ext fp module_id circuit_model tech_model =
     (if \<not> valid_file_stream fp then (Inr CMD_EXEC_FATAL_ERROR, fp)
      else case print_spice_subckt_definition fp module_id of
        (Inl a, fp0) \<Rightarrow> (Inl a, fp0)
      | (Inr _, fp0) \<Rightarrow>
        VTR_ASSERT (one_scalar_port (input_ports circuit_model)) fp0 (
        VTR_ASSERT (one_scalar_port (output_ports circuit_model)) fp0 (
        VTR_ASSERT (is_power_gated circuit_model) fp0 (
        case power_gate_en_port circuit_model of
          None \<Rightarrow> (Inl AssertionViolation, fp0)
        | Some en_port \<Rightarrow>
        case power_gate_enb_port circuit_model of
          None \<Rightarrow> (Inl AssertionViolation, fp0)
        | Some enb_port \<Rightarrow>
        VTR_ASSERT (2 \<le> buffer_num_levels circuit_model) fp0 (
        case for_each
               (powergated_buffer_level ext circuit_model tech_model en_port enb_port
                  (buffer_widths circuit_model))
               [0..<buffer_num_levels circuit_model] fp0 of
          (Inr CMD_EXEC_SUCCESS, fp1) \<Rightarrow>
            (Inr CMD_EXEC_SUCCESS, print_spice_subckt_end fp1 module_id)
        | r \<Rightarrow> r)))))"

definition regular_buffer_level ::
  "'nm externals \<Rightarrow> circuit_model \<Rightarrow> technology_model \<Rightarrow> float list \<Rightarrow> nat \<Rightarrow> fstream
     \<Rightarrow> emit_result" where
  "regular_buffer_level ext circuit_model tech_model widths level fp =
     (let input_port_name = port_prefix (input_ports circuit_model ! 0)
            @ (if 0 = level then [] else ''_level'' @ to_string (level - 1));
          output_port_name = port_prefix (output_ports circuit_model ! 0)
            @ (if 0 = level then ''_level'' @ to_string level else []);
          regular_pmos_bin_width = transistor_model_max_width tech_model TECH_LIB_TRANSISTOR_PMOS;
          total_pmos_width =
              mul_float (mul_float (widths ! level) (model_pn_ratio tech_model))
                (transistor_model_min_width tech_model TECH_LIB_TRANSISTOR_PMOS)
      in case for_each
                (\<lambda>(ibin, curr_bin_width) fp'.
                   print_spice_regular_inverter_pmos_modeling ext fp'
                     (''level'' @ to_string level @ ''_bin'' @ to_string ibin)
                     (port_prefix (input_ports circuit_model ! 0))
                     (port_prefix (output_ports circuit_model ! 0))
                     tech_model curr_bin_width)
                (enumerate 0 (bin_widths total_pmos_width regular_pmos_bin_width)) fp of
        (Inr CMD_EXEC_SUCCESS, fp1) \<Rightarrow>
          let regular_nmos_bin_width = transistor_model_max_width tech_model TECH_LIB_TRANSISTOR_NMOS;
              total_nmos_width =
                  mul_float (widths ! level)
                    (transistor_model_min_width tech_model TECH_LIB_TRANSISTOR_NMOS)
          in for_each
               (\<lambda>(ibin, curr_bin_width) fp'.
                  print_spice_regular_inverter_nmos_modeling ext fp'
                    (''level'' @ to_string level @ ''_bin'' @ to_string ibin)
                    (port_prefix (input_ports circuit_model ! 0))
                    (port_prefix (output_ports circuit_model ! 0))
                    tech_model curr_bin_width)
               (enumerate 0 (bin_widths total_nmos_width regular_nmos_bin_width)) fp1
      | r \<Rightarrow> r)"

definition print_spice_regular_buffer_subckt ::
  "'nm externals \<Rightarrow> fstream \<Rightarrow> spice_module option \<Rightarrow> circuit_model \<Rightarrow> technology_model
     \<Rightarrow> emit_result" where
  "print_spice_regular_buffer_subckt ext fp module_id circuit_model tech_model =
     (if \<not> valid_file_stream fp then (Inr CMD_EXEC_FATAL_ERROR, fp)
      else case print_spice_subckt_definition fp module_id of
        (Inl a, fp0) \<Rightarrow> (Inl a, fp0)
      | (Inr _, fp0) \<Rightarrow>
        VTR_ASSERT (one_scalar_port (input_ports circuit_model)) fp0 (
        VTR_ASSERT (one_scalar_port (output_ports circuit_model)) fp0 (
        VTR_ASSERT (2 \<le> buffer_num_levels circuit_model) fp0 (
        case for_each
               (regular_buffer_level ext circuit_model tech_model (buffer_widths circuit_model))
               [0..<buffer_num_levels circuit_model] fp0 of
          (Inr CMD_EXEC_SUCCESS, fp1) \<Rightarrow>
            (Inr CMD_EXEC_SUCCESS, print_spice_subckt_end fp1 module_id)
        | r \<Rightarrow> r))))"

definition print_spice_buffer_subckt ::
  "'nm externals \<Rightarrow> fstream \<Rightarrow> spice_module option \<Rightarrow> circuit_model \<Rightarrow> technology_model
     \<Rightarrow> emit_result" where
  "print_spice_buffer_subckt ext fp module_id circuit_model tech_model =
     (if is_power_gated circuit_model
      then print_spice_powergated_buffer_subckt ext fp module_id circuit_model tech_model
      else print_spice_regular_buffer_subckt ext fp module_id circuit_model tech_model)"

subsection \<open>The netlist of essential gates\<close>

text \<open>
  The branch of the loop for a model of type \<^verbatim>\<open>CIRCUIT_MODEL_INVBUF\<close>:
  \<^verbatim>\<open>
  if (CIRCUIT_MODEL_BUF_INV == circuit_lib.buffer_type(circuit_model)) {
    VTR_ASSERT(true == module_manager.valid_module_id(module_id));
    status = print_spice_inverter_subckt(...);
  } else {
    VTR_ASSERT(CIRCUIT_MODEL_BUF_BUF == circuit_lib.buffer_type(circuit_model));
    status = print_spice_buffer_subckt(...);
  }\<close>
\<close>

definition print_spice_invbuf_subckt ::
  "'nm externals \<Rightarrow> fstream \<Rightarrow> spice_module option \<Rightarrow> circuit_model \<Rightarrow> technology_model
     \<Rightarrow> emit_result" where
  "print_spice_invbuf_subckt ext fp module_id circuit_model tech_model =
     (if CIRCUIT_MODEL_BUF_INV = buffer_type circuit_model
      then VTR_ASSERT (module_id \<noteq> None) fp
             (print_spice_inverter_subckt ext fp module_id circuit_model tech_model)
      else print_spice_buffer_subckt ext fp module_id circuit_model tech_model)"

text \<open>
  How the loop over \<^verbatim>\<open>circuit_lib.models()\<close> is left: at its end or by
  \<^verbatim>\<open>break\<close>, with the value of the variable \<^verbatim>\<open>status\<close>; by a
  \<^verbatim>\<open>return\<close> inside the loop; or by an abort.
\<close>

datatype loop_exit = LoopEnd status | LoopReturn status | LoopAbort abort

fun essential_gates_loop ::
  "'nm externals \<Rightarrow> module_manager \<Rightarrow> technology_library \<Rightarrow> (nat \<rightharpoonup> nat)
     \<Rightarrow> circuit_model list \<Rightarrow> status \<Rightarrow> fstream \<Rightarrow> loop_exit \<times> fstream" where
  "essential_gates_loop ext module_manager tech_lib circuit_tech_binding [] st fp =
     (LoopEnd st, fp)"
| "essential_gates_loop ext module_manager tech_lib circuit_tech_binding
      (circuit_model # rest) st fp =
     (if model_circuit_netlist circuit_model \<noteq> []
      then essential_gates_loop ext module_manager tech_lib circuit_tech_binding rest st fp
      else
        let module_id = find_module module_manager (model_name circuit_model) in
        if CIRCUIT_MODEL_INVBUF = model_type circuit_model
           \<or> CIRCUIT_MODEL_PASSGATE = model_type circuit_model
           \<or> CIRCUIT_MODEL_GATE = model_type circuit_model
        then
          (case circuit_tech_binding (model_id circuit_model) of
             None \<Rightarrow> (LoopReturn CMD_EXEC_FATAL_ERROR, fp)
           | Some tech_model \<Rightarrow>
               if \<not> valid_model_id tech_lib tech_model then (LoopAbort AssertionViolation, fp)
               else if TECH_LIB_MODEL_TRANSISTOR \<noteq> tech_model_type (tech_lib ! tech_model)
               then (LoopAbort AssertionViolation, fp)
               else if CIRCUIT_MODEL_INVBUF = model_type circuit_model
               then
                 (case print_spice_invbuf_subckt ext fp module_id circuit_model
                         (tech_lib ! tech_model) of
                    (Inl a, fp') \<Rightarrow> (LoopAbort a, fp')
                  | (Inr st', fp') \<Rightarrow>
                      if CMD_EXEC_FATAL_ERROR = st' then (LoopEnd st', fp')
                      else essential_gates_loop ext module_manager tech_lib
                             circuit_tech_binding rest st' fp')
               else essential_gates_loop ext module_manager tech_lib circuit_tech_binding
                      rest st fp)
        else essential_gates_loop ext module_manager tech_lib circuit_tech_binding rest st fp)"

text \<open>
  \<open>fp0\<close> is the stream after \<^verbatim>\<open>fp.open\<close> and \<^verbatim>\<open>check_file_stream\<close>, which
  are not part of the sources.
\<close>

definition print_spice_essential_gates ::
  "'nm externals \<Rightarrow> 'nm \<Rightarrow> module_manager \<Rightarrow> circuit_model list \<Rightarrow> technology_library
     \<Rightarrow> (nat \<rightharpoonup> nat) \<Rightarrow> string \<Rightarrow> fstream \<Rightarrow> (abort + status) \<times> fstream \<times> 'nm" where
  "print_spice_essential_gates ext netlist_manager module_manager circuit_lib tech_lib
      circuit_tech_binding submodule_dir fp0 =
     (let spice_fname = submodule_dir @ ESSENTIALS_SPICE_FILE_NAME ext;
          fp = put_lines fp0 (spice_file_header ext ''Essential gates'')
      in case essential_gates_loop ext module_manager tech_lib circuit_tech_binding
                circuit_lib CMD_EXEC_SUCCESS fp of
           (LoopAbort a, fp') \<Rightarrow> (Inl a, fp', netlist_manager)
         | (LoopReturn st, fp') \<Rightarrow> (Inr st, fp', netlist_manager)
         | (LoopEnd st, fp') \<Rightarrow> close_and_register ext fp' netlist_manager spice_fname st)"

subsection \<open>Reading the emitted text\<close>

text \<open>
  An instance line of a transistor follows the fixed port mapping
  \<^verbatim>\<open>[X|M]<MODEL_CARD_NAME> <DRAIN> <GATE> <SOURCE> <BULK>\<close>: its fields are separated
  by blanks, the first is the name of the instance and the next four are the nets of the
  drain, the gate, the source and the bulk.
\<close>

fun spice_fields_from :: "string \<Rightarrow> string \<Rightarrow> string list" where
  "spice_fields_from cur [] = (if cur = [] then [] else [cur])"
| "spice_fields_from cur (c # cs) =
     (if c = CHR '' ''
      then (if cur = [] then [] else [cur]) @ spice_fields_from [] cs
      else spice_fields_from (cur @ [c]) cs)"

definition spice_fields :: "string \<Rightarrow> string list" where
  "spice_fields l = spice_fields_from [] l"

definition instance_name :: "string \<Rightarrow> string" where
  "instance_name l = spice_fields l ! 0"

definition drain_net :: "string \<Rightarrow> string" where
  "drain_net l = spice_fields l ! 1"

definition gate_net :: "string \<Rightarrow> string" where
  "gate_net l = spice_fields l ! 2"

definition source_net :: "string \<Rightarrow> string" where
  "source_net l = spice_fields l ! 3"

definition bulk_net :: "string \<Rightarrow> string" where
  "bulk_net l = spice_fields l ! 4"

definition starts_with :: "string \<Rightarrow> string \<Rightarrow> bool" where
  "starts_with p l = (take (length p) l = p)"

text \<open>A device instance line is a line that starts with \<^verbatim>\<open>X\<close>.\<close>

definition is_device_line :: "string \<Rightarrow> bool" where
  "is_device_line l = starts_with ''X'' l"

text \<open>The lines a call has added to the stream.\<close>

definition emitted :: "fstream \<Rightarrow> fstream \<Rightarrow> string list" where
  "emitted fp fp' = drop (length (written fp)) (written fp')"

subsection \<open>A small library to run the writers on\<close>

text \<open>The decimal digits of a non-negative integer.\<close>

function int_text :: "int \<Rightarrow> string" where
  "int_text k =
     (if k < 10 then [digit_char (nat k)] else int_text (k div 10) @ [digit_char (nat (k mod 10))])"
  by pat_completeness auto
termination
  by (relation "measure nat") auto

declare int_text.simps [simp del]

text \<open>A netlist manager that keeps the names and the types in a list and accepts every
  name; a formatter that prints a finite width as a fraction; \<^verbatim>\<open>name[lsb]\<close> for a pin.\<close>

definition sample_externals :: "(string \<times> e_netlist_type option) list externals" where
  "sample_externals =
     \<lparr>TRANSISTOR_WRAPPER_POSTFIX = ''_wrapper'',
      TRANSISTORS_SPICE_FILE_NAME = ''transistor.sp'',
      ESSENTIALS_SPICE_FILE_NAME = ''essential_gates.sp'',
      float_text = (\<lambda>w. case w of
                         Finite r \<Rightarrow>
                           (case quotient_of r of
                              (p, q) \<Rightarrow> (if p < 0 then ''-'' else [])
                                        @ int_text \<bar>p\<bar> @ ''/'' @ int_text q)
                       | PInf \<Rightarrow> ''inf'' | NInf \<Rightarrow> ''-inf'' | NaN \<Rightarrow> ''nan''),
      generate_spice_port = (\<lambda>name lsb msb. name @ ''['' @ to_string lsb @ '']''),
      spice_file_header = (\<lambda>usage. [''* '' @ usage]),
      add_netlist = (\<lambda>nm name. (Some (length nm), nm @ [(name, None)])),
      set_netlist_type = (\<lambda>nm nlist_id t. nm[nlist_id := (fst (nm ! nlist_id), Some t)])\<rparr>"

definition sample_fstream :: fstream where
  "sample_fstream = \<lparr>is_open = True, good = True, written = []\<rparr>"

definition sample_tech_model :: technology_model where
  "sample_tech_model =
     \<lparr>model_ref = ''M'',
      tech_model_type = TECH_LIB_MODEL_TRANSISTOR,
      model_pn_ratio = Finite 2,
      transistor_model_name =
        (\<lambda>t. case t of TECH_LIB_TRANSISTOR_PMOS \<Rightarrow> ''pch'' | TECH_LIB_TRANSISTOR_NMOS \<Rightarrow> ''nch''),
      transistor_model_chan_length = (\<lambda>t. Finite (1/8)),
      transistor_model_min_width = (\<lambda>t. Finite 1),
      transistor_model_max_width = (\<lambda>t. Finite 2)\<rparr>"

definition sample_inverter :: circuit_model where
  "sample_inverter =
     \<lparr>model_id = 0,
      model_name = ''INVTX1'',
      model_type = CIRCUIT_MODEL_INVBUF,
      model_circuit_netlist = [],
      buffer_type = CIRCUIT_MODEL_BUF_INV,
      is_power_gated = False,
      buffer_size = Finite 1,
      buffer_num_levels = 1,
      buffer_f_per_stage = Finite 1,
      input_ports = [\<lparr>port_prefix = ''in'', port_size = 1, pins = [0]\<rparr>],
      output_ports = [\<lparr>port_prefix = ''out'', port_size = 1, pins = [0]\<rparr>],
      power_gate_en_port = None,
      power_gate_enb_port = None\<rparr>"

definition sample_powergated_inverter :: circuit_model where
  "sample_powergated_inverter =
     sample_inverter
       \<lparr>is_power_gated := True,
        power_gate_en_port := Some \<lparr>port_prefix = ''en'', port_size = 2, pins = [0, 1]\<rparr>,
        power_gate_enb_port := Some \<lparr>port_prefix = ''enb'', port_size = 2, pins = [0, 1]\<rparr>\<rparr>"

definition sample_buffer :: circuit_model where
  "sample_buffer =
     sample_inverter
       \<lparr>buffer_type := CIRCUIT_MODEL_BUF_BUF, buffer_num_levels := 2,
        buffer_f_per_stage := Finite 2\<rparr>"

definition sample_powergated_buffer :: circuit_model where
  "sample_powergated_buffer =
     sample_powergated_inverter
       \<lparr>buffer_type := CIRCUIT_MODEL_BUF_BUF, buffer_num_levels := 2,
        buffer_f_per_stage := Finite 2\<rparr>"

definition sample_module :: spice_module where
  "sample_module = \<lparr>mod_name = ''INVTX1'', mod_ports = [''in'', ''out'']\<rparr>"

text \<open>
  An inverter of size 3 on a technology whose transistors have the minimum and the
  maximum width \<^verbatim>\<open>0.1f\<close>, the \<^verbatim>\<open>float\<close> nearest to \<open>1/10\<close>, and the ratio 1 of
  PMOS to NMOS.
\<close>

definition sample_tenth_tech_model :: technology_model where
  "sample_tenth_tech_model =
     sample_tech_model
       \<lparr>model_pn_ratio := Finite 1,
        transistor_model_min_width := (\<lambda>t. round_float (1/10)),
        transistor_model_max_width := (\<lambda>t. round_float (1/10))\<rparr>"

definition sample_inverter_x3 :: circuit_model where
  "sample_inverter_x3 = sample_inverter\<lparr>buffer_size := Finite 3\<rparr>"

section \<open>Properties\<close>

subsection \<open>Rounding\<close>












lemma float_le_refl_nonneg: "float_le (Finite 0) x \<Longrightarrow> float_le x x"
  by (cases x) simp_all
















subsection \<open>Width bins\<close>

text \<open>
  Claim C1 (width binning) says that for every \<open>total_width > 0\<close> and
  \<open>max_width > 0\<close> the bin widths emitted for one polarity of one stage sum exactly to
  \<open>total_width\<close>, every bin but the last being \<open>max_width\<close>. The code takes the number
  of bins from the quotient rounded to \<^verbatim>\<open>float\<close> and the last width from the exact
  remainder, and the two disagree when the quotient rounds down to an integer. The
  regular inverter of size 3 on a technology with the minimum and the maximum width
  \<^verbatim>\<open>0.1f\<close> has the total width \<^verbatim>\<open>0.3f\<close> on either side; three times
  \<^verbatim>\<open>0.1f\<close> is less than \<^verbatim>\<open>0.3f\<close> by \<open>1/134217728\<close>, so that the quotient
  has the ceiling 4, but as a \<^verbatim>\<open>float\<close> it rounds to 3: the writer emits three
  transistors per side, two of width \<^verbatim>\<open>0.1f\<close> and one of width \<open>1/134217728\<close>,
  and their widths sum to about two thirds of the total width, where four bins, three of
  the maximum width and the remainder, sum to it.
\<close>

theorem regular_inverter_bins_at_sample:
  "round_float (1/10) = Finite (13421773/134217728)
   \<and> mul_float (mul_float (buffer_size sample_inverter_x3) (model_pn_ratio sample_tenth_tech_model))
        (transistor_model_min_width sample_tenth_tech_model TECH_LIB_TRANSISTOR_PMOS)
      = Finite (5033165/16777216)
   \<and> round_float (3/10) = Finite (5033165/16777216)
   \<and> \<lceil>(5033165/16777216) / (13421773/134217728 :: rat)\<rceil> = 4
   \<and> div_float (Finite (5033165/16777216)) (Finite (13421773/134217728)) = Finite 3
   \<and> std_fmod (Finite (5033165/16777216)) (Finite (13421773/134217728))
      = Finite (1/134217728)
   \<and> bin_widths (Finite (5033165/16777216)) (Finite (13421773/134217728))
      = map Finite [13421773/134217728, 13421773/134217728, 1/134217728]
   \<and> sum_list [13421773/134217728, 13421773/134217728, 1/134217728 :: rat] < 5033165/16777216
   \<and> filter is_device_line
        (written (snd (print_spice_regular_inverter_subckt sample_externals sample_fstream
                         (Some sample_module) sample_inverter_x3 sample_tenth_tech_model)))
      = [''Xpmos_0 out in LVDD LVDD pch_wrapper W=13421773/134217728'',
         ''Xpmos_1 out in LVDD LVDD pch_wrapper W=13421773/134217728'',
         ''Xpmos_2 out in LVDD LVDD pch_wrapper W=1/134217728'',
         ''Xnmos_0 out in LGND LGND nch_wrapper W=13421773/134217728'',
         ''Xnmos_1 out in LGND LGND nch_wrapper W=13421773/134217728'',
         ''Xnmos_2 out in LGND LGND nch_wrapper W=1/134217728'']"
  by code_simp

text \<open>A quotient beyond the range of \<^verbatim>\<open>int\<close> gives no bin at all.\<close>

lemma bin_widths_out_of_int_range:
  "bin_widths (Finite 3000000000) (Finite 1) = []"
  by code_simp

subsection \<open>Widths of the stages of a buffer\<close>








subsection \<open>The output stream\<close>

lemma valid_put_line [simp]: "valid_file_stream (put_line fp l) = valid_file_stream fp"
  by (simp add: put_line_def valid_file_stream_def)

lemma valid_put_lines [simp]: "valid_file_stream (put_lines fp ls) = valid_file_stream fp"
  unfolding put_lines_def by (induction ls arbitrary: fp) simp_all

lemma valid_written_update [simp]:
  "valid_file_stream (fp\<lparr>written := ws\<rparr>) = valid_file_stream fp"
  by (simp add: valid_file_stream_def)

lemma put_line_valid:
  "valid_file_stream fp \<Longrightarrow> put_line fp l = fp\<lparr>written := written fp @ [l]\<rparr>"
  by (simp add: put_line_def)

lemma put_lines_invalid: "\<not> valid_file_stream fp \<Longrightarrow> put_lines fp ls = fp"
  unfolding put_lines_def by (induction ls) (simp_all add: put_line_def)

lemma put_lines_valid:
  "valid_file_stream fp \<Longrightarrow> put_lines fp ls = fp\<lparr>written := written fp @ ls\<rparr>"
  unfolding put_lines_def
proof (induction ls arbitrary: fp)
  case Nil
  then show ?case by simp
next
  case (Cons l ls)
  have v: "valid_file_stream (put_line fp l)" using Cons.prems by simp
  show ?case
    using Cons.prems by (simp add: Cons.IH[OF v]) (simp add: put_line_def)
qed

subsection \<open>Wrappers of the technology transistors\<close>

lemma transistor_models_loop_invalid:
  "\<not> valid_file_stream fp \<Longrightarrow> transistor_models_loop ext tech_lib fp = (None, fp)"
  by (induction tech_lib) (simp_all add: print_spice_transistor_model_wrapper_def)

lemma transistor_models_loop_first:
  assumes "valid_file_stream fp"
    and "\<forall>m \<in> set skipped. tech_model_type m \<noteq> TECH_LIB_MODEL_TRANSISTOR"
    and "tech_model_type model = TECH_LIB_MODEL_TRANSISTOR"
  shows "transistor_models_loop ext (skipped @ model # rest) fp =
    (Some CMD_EXEC_FATAL_ERROR,
     put_lines fp (transistor_wrapper_lines ext model TECH_LIB_TRANSISTOR_PMOS
                   @ transistor_wrapper_lines ext model TECH_LIB_TRANSISTOR_NMOS))"
  using assms
proof (induction skipped)
  case Nil
  then show ?case
    by (simp add: print_spice_transistor_model_wrapper_def put_lines_def)
next
  case (Cons m skipped)
  then show ?case by auto
qed

text \<open>
  Claim C3 says that \<^verbatim>\<open>print_spice_transistor_wrapper\<close>, on a writable stream and a
  library with a transistor model, writes a pair of wrappers for every transistor model
  and returns the success status, and returns the fatal status only when the stream is
  not writable. The code compares the status of
  \<^verbatim>\<open>print_spice_transistor_model_wrapper\<close> with \<^verbatim>\<open>CMD_EXEC_SUCCESS\<close> where it
  means \<^verbatim>\<open>CMD_EXEC_FATAL_ERROR\<close>. On a writable stream it returns the fatal status
  after the wrappers of the first transistor model, writes nothing for the models after
  it, and neither closes the stream nor registers the file. On a stream that is not
  writable it writes nothing and returns the success status (when the netlist manager
  accepts the file).
\<close>

theorem transistor_wrapper_status_inverted:
  "(valid_file_stream fp0
      \<and> (\<forall>m \<in> set skipped. tech_model_type m \<noteq> TECH_LIB_MODEL_TRANSISTOR)
      \<and> tech_model_type model = TECH_LIB_MODEL_TRANSISTOR
    \<longrightarrow> print_spice_transistor_wrapper ext netlist_manager (skipped @ model # rest)
          submodule_dir fp0
        = (Inr CMD_EXEC_FATAL_ERROR,
           put_lines fp0 (spice_file_header ext ''Transistor wrappers''
                          @ transistor_wrapper_lines ext model TECH_LIB_TRANSISTOR_PMOS
                          @ transistor_wrapper_lines ext model TECH_LIB_TRANSISTOR_NMOS),
           netlist_manager))
   \<and> (\<not> valid_file_stream fp0
      \<and> add_netlist ext netlist_manager (submodule_dir @ TRANSISTORS_SPICE_FILE_NAME ext)
          = (Some nlist_id, nm')
    \<longrightarrow> print_spice_transistor_wrapper ext netlist_manager tech_lib submodule_dir fp0
        = (Inr CMD_EXEC_SUCCESS, fclose fp0,
           set_netlist_type ext nm' nlist_id SUBMODULE_NETLIST))"
proof (intro conjI impI)
  assume a: "valid_file_stream fp0
      \<and> (\<forall>m \<in> set skipped. tech_model_type m \<noteq> TECH_LIB_MODEL_TRANSISTOR)
      \<and> tech_model_type model = TECH_LIB_MODEL_TRANSISTOR"
  let ?fp = "put_lines fp0 (spice_file_header ext ''Transistor wrappers'')"
  have v: "valid_file_stream ?fp" using a by simp
  have "transistor_models_loop ext (skipped @ model # rest) ?fp =
    (Some CMD_EXEC_FATAL_ERROR,
     put_lines ?fp (transistor_wrapper_lines ext model TECH_LIB_TRANSISTOR_PMOS
                   @ transistor_wrapper_lines ext model TECH_LIB_TRANSISTOR_NMOS))"
    using transistor_models_loop_first[OF v] a by blast
  then show "print_spice_transistor_wrapper ext netlist_manager (skipped @ model # rest)
          submodule_dir fp0
        = (Inr CMD_EXEC_FATAL_ERROR,
           put_lines fp0 (spice_file_header ext ''Transistor wrappers''
                          @ transistor_wrapper_lines ext model TECH_LIB_TRANSISTOR_PMOS
                          @ transistor_wrapper_lines ext model TECH_LIB_TRANSISTOR_NMOS),
           netlist_manager)"
    by (simp add: print_spice_transistor_wrapper_def put_lines_def)
next
  assume a: "\<not> valid_file_stream fp0
      \<and> add_netlist ext netlist_manager (submodule_dir @ TRANSISTORS_SPICE_FILE_NAME ext)
          = (Some nlist_id, nm')"
  then show "print_spice_transistor_wrapper ext netlist_manager tech_lib submodule_dir fp0
        = (Inr CMD_EXEC_SUCCESS, fclose fp0,
           set_netlist_type ext nm' nlist_id SUBMODULE_NETLIST)"
    by (simp add: print_spice_transistor_wrapper_def put_lines_invalid
        transistor_models_loop_invalid close_and_register_def)
qed

text \<open>The library of two transistor models on a writable stream: the fatal status, and
  the wrappers of the first model only. The same library on a closed stream: the success
  status.\<close>

theorem transistor_wrapper_status_inverted_witness:
  "print_spice_transistor_wrapper sample_externals []
     [sample_tech_model, sample_tech_model\<lparr>model_ref := ''N''\<rparr>] ''./'' sample_fstream
   = (Inr CMD_EXEC_FATAL_ERROR,
      \<lparr>is_open = True, good = True,
       written =
         [''* Transistor wrappers'',
          ''.subckt pch_wrapper drain gate source bulk L=1/8 W=1/1'',
          ''M1 drain gate source bulk pch L=L W=W'',
          ''.ends'',
          ''.subckt nch_wrapper drain gate source bulk L=1/8 W=1/1'',
          ''M1 drain gate source bulk nch L=L W=W'',
          ''.ends'']\<rparr>,
      [])
   \<and> print_spice_transistor_wrapper sample_externals []
       [sample_tech_model, sample_tech_model\<lparr>model_ref := ''N''\<rparr>] ''./''
       (sample_fstream\<lparr>is_open := False\<rparr>)
     = (Inr CMD_EXEC_SUCCESS, sample_fstream\<lparr>is_open := False\<rparr>,
        [(''./transistor.sp'', Some SUBMODULE_NETLIST)])"
proof -
  have v: "valid_file_stream sample_fstream"
    by (simp add: valid_file_stream_def sample_fstream_def)
  have t: "tech_model_type sample_tech_model = TECH_LIB_MODEL_TRANSISTOR"
    by (simp add: sample_tech_model_def)
  have l: "put_lines sample_fstream (spice_file_header sample_externals ''Transistor wrappers''
              @ transistor_wrapper_lines sample_externals sample_tech_model TECH_LIB_TRANSISTOR_PMOS
              @ transistor_wrapper_lines sample_externals sample_tech_model TECH_LIB_TRANSISTOR_NMOS)
     = \<lparr>is_open = True, good = True,
        written =
         [''* Transistor wrappers'',
          ''.subckt pch_wrapper drain gate source bulk L=1/8 W=1/1'',
          ''M1 drain gate source bulk pch L=L W=W'',
          ''.ends'',
          ''.subckt nch_wrapper drain gate source bulk L=1/8 W=1/1'',
          ''M1 drain gate source bulk nch L=L W=W'',
          ''.ends'']\<rparr>"
    by code_simp
  have n: "\<not> valid_file_stream (sample_fstream\<lparr>is_open := False\<rparr>)"
    by (simp add: valid_file_stream_def)
  have a: "add_netlist sample_externals [] (''./'' @ TRANSISTORS_SPICE_FILE_NAME sample_externals)
      = (Some 0, [(''./transistor.sp'', None)])"
    by (simp add: sample_externals_def)
  have s: "set_netlist_type sample_externals [(''./transistor.sp'', None)] 0 SUBMODULE_NETLIST
      = [(''./transistor.sp'', Some SUBMODULE_NETLIST)]"
    by (simp add: sample_externals_def)
  have c: "fclose (sample_fstream\<lparr>is_open := False\<rparr>) = sample_fstream\<lparr>is_open := False\<rparr>"
    by (simp add: fclose_def)
  show ?thesis
    using transistor_wrapper_status_inverted
      [where ?fp0.0 = sample_fstream and skipped = "[]" and model = sample_tech_model
         and rest = "[sample_tech_model\<lparr>model_ref := ''N''\<rparr>]" and ext = sample_externals
         and netlist_manager = "[]" and submodule_dir = "''./''"]
      transistor_wrapper_status_inverted
      [where ?fp0.0 = "sample_fstream\<lparr>is_open := False\<rparr>" and ext = sample_externals
         and netlist_manager = "[]" and submodule_dir = "''./''" and nlist_id = 0
         and nm' = "[(''./transistor.sp'', None)]"
         and tech_lib = "[sample_tech_model, sample_tech_model\<lparr>model_ref := ''N''\<rparr>]"]
    unfolding l s c using v t n a by simp
qed

subsection \<open>Nets of the emitted transistors\<close>

text \<open>
  Claim C2 says that the transistors of level 0 of a multi-stage buffer have the true
  input as gate net and \<^verbatim>\<open><output>_level0\<close> as drain net, that those of a level
  \<open>l > 0\<close> have \<^verbatim>\<open><output>_level(l-1)\<close> as gate net, and that only those of the last
  level have the true output as drain net. The code builds the names of the nets of the
  level and then passes the prefixes of the ports to the transistor writers: on a buffer
  of two levels with the ports \<^verbatim>\<open>in\<close> and \<^verbatim>\<open>out\<close>, regular or power-gated, every
  transistor of either level has the drain \<^verbatim>\<open>out\<close> and the gate \<^verbatim>\<open>in\<close>, and no
  line names \<^verbatim>\<open>out_level0\<close>.
\<close>

theorem buffer_stage_nets_at_sample:
  "map (\<lambda>l. (instance_name l, drain_net l, gate_net l))
     (filter is_device_line
        (written (snd (print_spice_regular_buffer_subckt sample_externals sample_fstream
                         (Some sample_module) sample_buffer sample_tech_model))))
   = [(''Xpmos_level0_bin0'', ''out'', ''in''),
      (''Xnmos_level0_bin0'', ''out'', ''in''),
      (''Xpmos_level1_bin0'', ''out'', ''in''),
      (''Xpmos_level1_bin1'', ''out'', ''in''),
      (''Xnmos_level1_bin0'', ''out'', ''in'')]
   \<and> map (\<lambda>l. (instance_name l, drain_net l, gate_net l))
     (filter (\<lambda>l. starts_with ''Xpmos_level'' l \<or> starts_with ''Xnmos_level'' l)
        (written (snd (print_spice_powergated_buffer_subckt sample_externals sample_fstream
                         (Some sample_module) sample_powergated_buffer sample_tech_model))))
   = [(''Xpmos_level0_bin0'', ''out'', ''in''),
      (''Xnmos_level0_bin0'', ''out'', ''in''),
      (''Xpmos_level1_bin0'', ''out'', ''in''),
      (''Xpmos_level1_bin1'', ''out'', ''in''),
      (''Xnmos_level1_bin0'', ''out'', ''in'')]"
  by code_simp

text \<open>
  Claim C4 says that the source net of the transistor of a power-gated stage is the
  node of the last pin of the chain, on the NMOS side the one field
  \<^verbatim>\<open><output>_nmos_pg_<lastPin>\<close>, as \<^verbatim>\<open><output>_pmos_pg_<lastPin>\<close> is on the PMOS side.
  The code writes a blank between the output name and \<^verbatim>\<open>_nmos_pg_\<close>: on the
  power-gated inverter with the ports \<^verbatim>\<open>in\<close> and \<^verbatim>\<open>out\<close> and two enable pins, the
  source of \<^verbatim>\<open>Xpmos_0\<close> is \<^verbatim>\<open>out_pmos_pg_1\<close>, the source of \<^verbatim>\<open>Xnmos_0\<close> is
  \<^verbatim>\<open>out\<close>, and \<^verbatim>\<open>_nmos_pg_1\<close> stands where its bulk is read.
\<close>

theorem powergated_source_nets_at_sample:
  "map (\<lambda>l. (instance_name l, source_net l, bulk_net l))
     (filter is_device_line
        (written (snd (print_spice_powergated_inverter_subckt sample_externals sample_fstream
                         (Some sample_module) sample_powergated_inverter sample_tech_model))))
   = [(''Xpmos_powergate_0_pin_0'', ''LVDD'', ''LVDD''),
      (''Xpmos_powergate_0_pin_1'', ''out_pmos_pg_1'', ''LVDD''),
      (''Xpmos_0'', ''out_pmos_pg_1'', ''LVDD''),
      (''Xnmos_powergate_0_pin_0'', ''LGND'', ''LGND''),
      (''Xnmos_powergate_0_pin_1'', ''out_nmos_pg_1'', ''LGND''),
      (''Xnmos_0'', ''out'', ''_nmos_pg_1'')]"
  by code_simp

text \<open>
  Claim C5 says that the gate net of the chain transistor of pin \<open>i\<close> of an enable or
  enable-bar port is the net of pin \<open>i\<close> of that port, also for \<open>i > 0\<close> and on the NMOS
  side as on the PMOS side. The code writes \<^verbatim>\<open>generate_spice_port(en_pin)\<close> for the
  first pin of the NMOS chain and \<^verbatim>\<open>circuit_lib.port_prefix(en_port)\<close> for the pins
  after it: on the power-gated inverter with the enable ports \<^verbatim>\<open>en\<close> and \<^verbatim>\<open>enb\<close> of
  two pins, the gates of the PMOS chain are the nets of the pins 0 and 1 of \<^verbatim>\<open>enb\<close>,
  the gate of the first NMOS chain transistor is the net of pin 0 of \<^verbatim>\<open>en\<close>, and the
  gate of the second is \<^verbatim>\<open>en\<close>, not the net of pin 1.
\<close>

theorem powergate_chain_gate_nets_at_sample:
  "map (\<lambda>l. (instance_name l, gate_net l))
     (filter (\<lambda>l. starts_with ''Xpmos_powergate_'' l \<or> starts_with ''Xnmos_powergate_'' l)
        (written (snd (print_spice_powergated_inverter_subckt sample_externals sample_fstream
                         (Some sample_module) sample_powergated_inverter sample_tech_model))))
   = [(''Xpmos_powergate_0_pin_0'', generate_spice_port sample_externals ''enb'' 0 0),
      (''Xpmos_powergate_0_pin_1'', generate_spice_port sample_externals ''enb'' 1 1),
      (''Xnmos_powergate_0_pin_0'', generate_spice_port sample_externals ''en'' 0 0),
      (''Xnmos_powergate_0_pin_1'', ''en'')]
   \<and> generate_spice_port sample_externals ''en'' 1 1 = ''en[1]''"
  by code_simp

subsection \<open>Power-gating chains\<close>

lemma starts_with_append: "starts_with p (p @ r)"
  by (simp add: starts_with_def)

lemma emitted_written_append [simp]:
  "emitted fp (fp\<lparr>written := written fp @ ls\<rparr>) = ls"
  by (simp add: emitted_def)

lemma emitted_self [simp]: "emitted fp fp = []"
  by (simp add: emitted_def)

lemma pmos_powergate_pins_written:
  "valid_file_stream fp \<Longrightarrow>
   pmos_powergate_pins ext pf out port tm w ps first prev fp =
     fp\<lparr>written := written fp @
        map (\<lambda>i. pmos_powergate_line ext pf out port tm w (first \<and> i = 0)
                    (if i = 0 then prev else ps ! (i - 1)) (ps ! i))
            [0..<length ps]\<rparr>"
proof (induction ps arbitrary: first prev fp)
  case Nil
  then show ?case by simp
next
  case (Cons p ps)
  have v: "valid_file_stream (put_line fp (pmos_powergate_line ext pf out port tm w first prev p))"
    using Cons.prems by simp
  have m: "map (\<lambda>i. pmos_powergate_line ext pf out port tm w (first \<and> i = 0)
                    (if i = 0 then prev else (p # ps) ! (i - 1)) ((p # ps) ! i))
            [0..<length (p # ps)]
     = pmos_powergate_line ext pf out port tm w first prev p
       # map (\<lambda>i. pmos_powergate_line ext pf out port tm w (False \<and> i = 0)
                    (if i = 0 then p else ps ! (i - 1)) (ps ! i))
            [0..<length ps]"
    by (simp add: map_upt_Suc nth_Cons' del: upt_Suc)
  show ?case
    using Cons.prems unfolding m
    by (simp add: Cons.IH[OF v]) (simp add: put_line_def)
qed


lemma starts_with_appendI: "l = p @ r \<Longrightarrow> starts_with p l"
  by (simp add: starts_with_def)

lemma nmos_powergate_pins_written:
  "valid_file_stream fp \<Longrightarrow>
   nmos_powergate_pins ext pf out port tm w ps first prev fp =
     fp\<lparr>written := written fp @
        map (\<lambda>i. nmos_powergate_line ext pf out port tm w (first \<and> i = 0)
                    (if i = 0 then prev else ps ! (i - 1)) (ps ! i))
            [0..<length ps]\<rparr>"
proof (induction ps arbitrary: first prev fp)
  case Nil
  then show ?case by simp
next
  case (Cons p ps)
  have v: "valid_file_stream (put_line fp (nmos_powergate_line ext pf out port tm w first prev p))"
    using Cons.prems by simp
  have m: "map (\<lambda>i. nmos_powergate_line ext pf out port tm w (first \<and> i = 0)
                    (if i = 0 then prev else (p # ps) ! (i - 1)) ((p # ps) ! i))
            [0..<length (p # ps)]
     = nmos_powergate_line ext pf out port tm w first prev p
       # map (\<lambda>i. nmos_powergate_line ext pf out port tm w (False \<and> i = 0)
                    (if i = 0 then p else ps ! (i - 1)) (ps ! i))
            [0..<length ps]"
    by (simp add: map_upt_Suc nth_Cons' del: upt_Suc)
  show ?case
    using Cons.prems unfolding m
    by (simp add: Cons.IH[OF v]) (simp add: put_line_def)
qed

lemma pmos_modeling_valid:
  assumes "valid_file_stream fp" and "pins port \<noteq> []"
  shows "print_spice_powergated_inverter_pmos_modeling ext fp pf inn out port tm w =
    (Inr CMD_EXEC_SUCCESS,
     fp\<lparr>written := written fp @
        map (\<lambda>i. pmos_powergate_line ext pf out port tm w (i = 0)
                    (pins port ! (i - 1)) (pins port ! i))
            [0..<length (pins port)]
        @ [pmos_powergated_core_line ext pf inn out port tm w]\<rparr>)"
proof -
  have "map (\<lambda>i. pmos_powergate_line ext pf out port tm w (True \<and> i = 0)
                    (if i = 0 then 0 else pins port ! (i - 1)) (pins port ! i))
            [0..<length (pins port)]
     = map (\<lambda>i. pmos_powergate_line ext pf out port tm w (i = 0)
                    (pins port ! (i - 1)) (pins port ! i))
            [0..<length (pins port)]"
    by (simp add: pmos_powergate_line_def)
  then show ?thesis
    using assms
    by (simp add: print_spice_powergated_inverter_pmos_modeling_def
        pmos_powergate_pins_written put_line_valid)
qed

lemma nmos_modeling_valid:
  assumes "valid_file_stream fp" and "pins port \<noteq> []"
  shows "print_spice_powergated_inverter_nmos_modeling ext fp pf inn out port tm w =
    (Inr CMD_EXEC_SUCCESS,
     fp\<lparr>written := written fp @
        map (\<lambda>i. nmos_powergate_line ext pf out port tm w (i = 0)
                    (pins port ! (i - 1)) (pins port ! i))
            [0..<length (pins port)]
        @ [nmos_powergated_core_line ext pf inn out port tm w]\<rparr>)"
proof -
  have "map (\<lambda>i. nmos_powergate_line ext pf out port tm w (True \<and> i = 0)
                    (if i = 0 then 0 else pins port ! (i - 1)) (pins port ! i))
            [0..<length (pins port)]
     = map (\<lambda>i. nmos_powergate_line ext pf out port tm w (i = 0)
                    (pins port ! (i - 1)) (pins port ! i))
            [0..<length (pins port)]"
    by (simp add: nmos_powergate_line_def)
  then show ?thesis
    using assms
    by (simp add: print_spice_powergated_inverter_nmos_modeling_def
        nmos_powergate_pins_written put_line_valid)
qed

lemma for_each_writes:
  assumes "\<And>x fp. valid_file_stream fp \<Longrightarrow>
             body x fp = (Inr CMD_EXEC_SUCCESS, fp\<lparr>written := written fp @ out x\<rparr>)"
    and "valid_file_stream fp"
  shows "for_each body xs fp =
    (Inr CMD_EXEC_SUCCESS, fp\<lparr>written := written fp @ concat (map out xs)\<rparr>)"
  using assms(2)
proof (induction xs arbitrary: fp)
  case Nil
  then show ?case by simp
next
  case (Cons x xs)
  have v: "valid_file_stream (fp\<lparr>written := written fp @ out x\<rparr>)" using Cons.prems by simp
  show ?case
    by (simp add: assms(1)[OF Cons.prems] Cons.IH[OF v])
qed

lemma for_each_invalid:
  assumes "\<And>x. body x fp = (Inr CMD_EXEC_FATAL_ERROR, fp)"
  shows "for_each body xs fp = (Inr (if xs = [] then CMD_EXEC_SUCCESS else CMD_EXEC_FATAL_ERROR), fp)"
  by (cases xs) (simp_all add: assms)

lemma starts_with_pmos_powergate_line:
  "starts_with (''Xpmos_powergate_'' @ pf @ ''_pin_'' @ to_string pin @ '' '')
     (pmos_powergate_line ext pf out port tm w first prev pin)"
  unfolding pmos_powergate_line_def
  by (rule starts_with_appendI) simp

lemma starts_with_nmos_powergate_line:
  "starts_with (''Xnmos_powergate_'' @ pf @ ''_pin_'' @ to_string pin @ '' '')
     (nmos_powergate_line ext pf out port tm w first prev pin)"
  unfolding nmos_powergate_line_def
  by (rule starts_with_appendI) simp

lemma starts_with_pmos_core_line:
  "starts_with (''Xpmos_'' @ pf @ '' '') (pmos_powergated_core_line ext pf inn out port tm w)"
  unfolding pmos_powergated_core_line_def
  by (rule starts_with_appendI) simp

lemma starts_with_nmos_core_line:
  "starts_with (''Xnmos_'' @ pf @ '' '') (nmos_powergated_core_line ext pf inn out port tm w)"
  unfolding nmos_powergated_core_line_def
  by (rule starts_with_appendI) simp

lemma length_concat_const:
  "(\<And>x. x \<in> set xs \<Longrightarrow> length (f x) = n) \<Longrightarrow> length (concat (map f xs)) = length xs * n"
  by (induction xs) simp_all

text \<open>
  Claim C7 (length of the chain), as stated: an enable or enable-bar port of \<open>k \<ge> 1\<close> pins
  gives, for a stage and a polarity, exactly \<open>k\<close> chain transistors and exactly one
  transistor of the stage. The writers emit the chain and the transistor once for every
  width bin of the stage: the power-gated inverter of size 2 has two PMOS bins, and with
  the two pins of its enable-bar port its PMOS side has four chain transistors and two
  transistors of the stage.
\<close>

theorem powergate_chain_two_bins_counterexample:
  "power_gate_enb_port (sample_powergated_inverter\<lparr>buffer_size := Finite 2\<rparr>)
     = Some \<lparr>port_prefix = ''enb'', port_size = 2, pins = [0, 1]\<rparr>
   \<and> length (filter (starts_with ''Xpmos_powergate_'')
       (written (snd (print_spice_powergated_inverter_subckt sample_externals sample_fstream
          (Some sample_module) (sample_powergated_inverter\<lparr>buffer_size := Finite 2\<rparr>)
          sample_tech_model)))) = 4
   \<and> length (filter (\<lambda>l. starts_with ''Xpmos_'' l \<and> \<not> starts_with ''Xpmos_powergate_'' l)
       (written (snd (print_spice_powergated_inverter_subckt sample_externals sample_fstream
          (Some sample_module) (sample_powergated_inverter\<lparr>buffer_size := Finite 2\<rparr>)
          sample_tech_model)))) = 2"
  by code_simp

text \<open>
  Claim C7, amended: on a valid stream and for a port of \<open>k \<ge> 1\<close> pins, each call of the
  PMOS or NMOS writer of a power-gated stage, that is each width bin of a stage and
  polarity, adds exactly \<open>k + 1\<close> lines: \<open>k\<close> chain transistors, the \<open>i\<close>-th named after
  the \<open>i\<close>-th pin, and then one transistor of the stage. The loop over the bins of a stage
  and polarity adds \<open>k + 1\<close> lines for every bin.
\<close>

theorem powergate_chain_length:
  assumes "valid_file_stream fp" and "pins port \<noteq> []"
  shows
    "(\<exists>fp'. print_spice_powergated_inverter_pmos_modeling ext fp pf inn out port tm w
              = (Inr CMD_EXEC_SUCCESS, fp')
          \<and> length (emitted fp fp') = length (pins port) + 1
          \<and> (\<forall>i < length (pins port).
                starts_with (''Xpmos_powergate_'' @ pf @ ''_pin_'' @ to_string (pins port ! i) @ '' '')
                  (emitted fp fp' ! i))
          \<and> starts_with (''Xpmos_'' @ pf @ '' '') (last (emitted fp fp')))
   \<and> (\<exists>fp'. print_spice_powergated_inverter_nmos_modeling ext fp pf inn out port tm w
              = (Inr CMD_EXEC_SUCCESS, fp')
          \<and> length (emitted fp fp') = length (pins port) + 1
          \<and> (\<forall>i < length (pins port).
                starts_with (''Xnmos_powergate_'' @ pf @ ''_pin_'' @ to_string (pins port ! i) @ '' '')
                  (emitted fp fp' ! i))
          \<and> starts_with (''Xnmos_'' @ pf @ '' '') (last (emitted fp fp')))
   \<and> (\<exists>fp'. for_each
               (\<lambda>(ibin, curr_bin_width) fp'.
                  print_spice_powergated_inverter_pmos_modeling ext fp' (postfix ibin) inn out
                    port tm curr_bin_width) bins fp
              = (Inr CMD_EXEC_SUCCESS, fp')
          \<and> length (emitted fp fp') = length bins * (length (pins port) + 1))
   \<and> (\<exists>fp'. for_each
               (\<lambda>(ibin, curr_bin_width) fp'.
                  print_spice_powergated_inverter_nmos_modeling ext fp' (postfix ibin) inn out
                    port tm curr_bin_width) bins fp
              = (Inr CMD_EXEC_SUCCESS, fp')
          \<and> length (emitted fp fp') = length bins * (length (pins port) + 1))"
proof (intro conjI)
  show "\<exists>fp'. print_spice_powergated_inverter_pmos_modeling ext fp pf inn out port tm w
              = (Inr CMD_EXEC_SUCCESS, fp')
          \<and> length (emitted fp fp') = length (pins port) + 1
          \<and> (\<forall>i < length (pins port).
                starts_with (''Xpmos_powergate_'' @ pf @ ''_pin_'' @ to_string (pins port ! i) @ '' '')
                  (emitted fp fp' ! i))
          \<and> starts_with (''Xpmos_'' @ pf @ '' '') (last (emitted fp fp'))"
    unfolding pmos_modeling_valid[OF assms]
    by (simp add: nth_append starts_with_pmos_powergate_line starts_with_pmos_core_line del: append.simps)
  show "\<exists>fp'. print_spice_powergated_inverter_nmos_modeling ext fp pf inn out port tm w
              = (Inr CMD_EXEC_SUCCESS, fp')
          \<and> length (emitted fp fp') = length (pins port) + 1
          \<and> (\<forall>i < length (pins port).
                starts_with (''Xnmos_powergate_'' @ pf @ ''_pin_'' @ to_string (pins port ! i) @ '' '')
                  (emitted fp fp' ! i))
          \<and> starts_with (''Xnmos_'' @ pf @ '' '') (last (emitted fp fp'))"
    unfolding nmos_modeling_valid[OF assms]
    by (simp add: nth_append starts_with_nmos_powergate_line starts_with_nmos_core_line del: append.simps)
  have p: "for_each
               (\<lambda>(ibin, curr_bin_width) fp'.
                  print_spice_powergated_inverter_pmos_modeling ext fp' (postfix ibin) inn out
                    port tm curr_bin_width) bins fp
      = (Inr CMD_EXEC_SUCCESS,
         fp\<lparr>written := written fp @ concat (map (\<lambda>(ibin, curr_bin_width).
            map (\<lambda>i. pmos_powergate_line ext (postfix ibin) out port tm curr_bin_width (i = 0)
                    (pins port ! (i - 1)) (pins port ! i))
                [0..<length (pins port)]
            @ [pmos_powergated_core_line ext (postfix ibin) inn out port tm curr_bin_width]) bins)\<rparr>)"
    by (rule for_each_writes[OF _ assms(1)]) (simp add: pmos_modeling_valid[OF _ assms(2)] split: prod.split)
  show "\<exists>fp'. for_each
               (\<lambda>(ibin, curr_bin_width) fp'.
                  print_spice_powergated_inverter_pmos_modeling ext fp' (postfix ibin) inn out
                    port tm curr_bin_width) bins fp
              = (Inr CMD_EXEC_SUCCESS, fp')
          \<and> length (emitted fp fp') = length bins * (length (pins port) + 1)"
    unfolding p by (simp add: length_concat_const split: prod.split)
  have n: "for_each
               (\<lambda>(ibin, curr_bin_width) fp'.
                  print_spice_powergated_inverter_nmos_modeling ext fp' (postfix ibin) inn out
                    port tm curr_bin_width) bins fp
      = (Inr CMD_EXEC_SUCCESS,
         fp\<lparr>written := written fp @ concat (map (\<lambda>(ibin, curr_bin_width).
            map (\<lambda>i. nmos_powergate_line ext (postfix ibin) out port tm curr_bin_width (i = 0)
                    (pins port ! (i - 1)) (pins port ! i))
                [0..<length (pins port)]
            @ [nmos_powergated_core_line ext (postfix ibin) inn out port tm curr_bin_width]) bins)\<rparr>)"
    by (rule for_each_writes[OF _ assms(1)]) (simp add: nmos_modeling_valid[OF _ assms(2)] split: prod.split)
  show "\<exists>fp'. for_each
               (\<lambda>(ibin, curr_bin_width) fp'.
                  print_spice_powergated_inverter_nmos_modeling ext fp' (postfix ibin) inn out
                    port tm curr_bin_width) bins fp
              = (Inr CMD_EXEC_SUCCESS, fp')
          \<and> length (emitted fp fp') = length bins * (length (pins port) + 1)"
    unfolding n by (simp add: length_concat_const split: prod.split)
qed

theorem powergate_chain_length_witness:
  "length (emitted sample_fstream
      (snd (print_spice_powergated_inverter_pmos_modeling sample_externals sample_fstream
              ''0'' ''in'' ''out'' \<lparr>port_prefix = ''enb'', port_size = 2, pins = [0, 1]\<rparr>
              sample_tech_model (Finite 2)))) = 3
   \<and> length (emitted sample_fstream
      (snd (print_spice_powergated_inverter_nmos_modeling sample_externals sample_fstream
              ''0'' ''in'' ''out'' \<lparr>port_prefix = ''enb'', port_size = 2, pins = [0, 1]\<rparr>
              sample_tech_model (Finite 2)))) = 3
   \<and> length (emitted sample_fstream
      (snd (for_each
              (\<lambda>(ibin, curr_bin_width) fp'.
                 print_spice_powergated_inverter_pmos_modeling sample_externals fp'
                   (to_string ibin) ''in'' ''out''
                   \<lparr>port_prefix = ''enb'', port_size = 2, pins = [0, 1]\<rparr>
                   sample_tech_model curr_bin_width)
              [(0, Finite 2), (1, Finite 2)] sample_fstream))) = 6
   \<and> written
      (snd (print_spice_powergated_inverter_pmos_modeling sample_externals sample_fstream
              ''0'' ''in'' ''out'' \<lparr>port_prefix = ''enb'', port_size = 2, pins = [0, 1]\<rparr>
              sample_tech_model (Finite 2)))
     = [''Xpmos_powergate_0_pin_0 out_pmos_pg_0 enb[0] LVDD LVDD pch_wrapper W=2/1'',
        ''Xpmos_powergate_0_pin_1 out_pmos_pg_0 enb[1] out_pmos_pg_1 LVDD pch_wrapper W=2/1'',
        ''Xpmos_0 out in out_pmos_pg_1 LVDD pch_wrapper W=2/1'']"
proof -
  have v: "valid_file_stream sample_fstream"
    by (simp add: valid_file_stream_def sample_fstream_def)
  have p: "pins \<lparr>port_prefix = ''enb'', port_size = 2, pins = [0, 1]\<rparr> \<noteq> []" by simp
  have l: "written
      (snd (print_spice_powergated_inverter_pmos_modeling sample_externals sample_fstream
              ''0'' ''in'' ''out'' \<lparr>port_prefix = ''enb'', port_size = 2, pins = [0, 1]\<rparr>
              sample_tech_model (Finite 2)))
     = [''Xpmos_powergate_0_pin_0 out_pmos_pg_0 enb[0] LVDD LVDD pch_wrapper W=2/1'',
        ''Xpmos_powergate_0_pin_1 out_pmos_pg_0 enb[1] out_pmos_pg_1 LVDD pch_wrapper W=2/1'',
        ''Xpmos_0 out in out_pmos_pg_1 LVDD pch_wrapper W=2/1'']"
    by code_simp
  show ?thesis
    using powergate_chain_length[OF v p,
        where ext = sample_externals and pf = "''0''" and inn = "''in''" and out = "''out''"
          and tm = sample_tech_model and w = "Finite 2" and postfix = to_string
          and bins = "[(0, Finite 2), (1, Finite 2)]"] l
    by auto
qed

subsection \<open>Rejection of models with unsupported ports\<close>

lemma one_scalar_port_iff:
  "one_scalar_port ports \<longleftrightarrow> (\<exists>p. ports = [p] \<and> port_size p = 1)"
proof (cases ports)
  case Nil
  then show ?thesis by (simp add: one_scalar_port_def)
next
  case (Cons p ps)
  then show ?thesis by (cases ps) (auto simp: one_scalar_port_def)
qed

lemma not_device_line_subckt [simp]: "\<not> is_device_line (''.subckt '' @ rest)"
  by (simp add: is_device_line_def starts_with_def)

lemma subckt_definition_valid:
  "valid_file_stream fp \<Longrightarrow>
   print_spice_subckt_definition fp module_id =
     (case module_id of
        None \<Rightarrow> (Inl AssertionViolation, fp)
      | Some m \<Rightarrow> (Inr CMD_EXEC_SUCCESS,
          fp\<lparr>written := written fp @ [''.subckt '' @ mod_name m @ '' '' @ join_blank (mod_ports m)]\<rparr>))"
  by (simp add: print_spice_subckt_definition_def put_line_valid split: option.split)

lemma rejected_regular_inverter:
  assumes "\<not> (one_scalar_port (input_ports cm) \<and> one_scalar_port (output_ports cm))"
    and "valid_file_stream fp"
  shows "fst (print_spice_regular_inverter_subckt ext fp module_id cm tm) = Inl AssertionViolation
    \<and> filter is_device_line
        (emitted fp (snd (print_spice_regular_inverter_subckt ext fp module_id cm tm))) = []"
  using assms
  by (auto simp: print_spice_regular_inverter_subckt_def subckt_definition_valid VTR_ASSERT_def
      simp del: append.simps split: option.split)

lemma rejected_powergated_inverter:
  assumes "\<not> (one_scalar_port (input_ports cm) \<and> one_scalar_port (output_ports cm))"
    and "valid_file_stream fp"
  shows "fst (print_spice_powergated_inverter_subckt ext fp module_id cm tm) = Inl AssertionViolation
    \<and> filter is_device_line
        (emitted fp (snd (print_spice_powergated_inverter_subckt ext fp module_id cm tm))) = []"
  using assms
  by (auto simp: print_spice_powergated_inverter_subckt_def subckt_definition_valid VTR_ASSERT_def
      simp del: append.simps split: option.split)

lemma rejected_regular_buffer:
  assumes "\<not> (one_scalar_port (input_ports cm) \<and> one_scalar_port (output_ports cm))"
    and "valid_file_stream fp"
  shows "fst (print_spice_regular_buffer_subckt ext fp module_id cm tm) = Inl AssertionViolation
    \<and> filter is_device_line
        (emitted fp (snd (print_spice_regular_buffer_subckt ext fp module_id cm tm))) = []"
  using assms
  by (auto simp: print_spice_regular_buffer_subckt_def subckt_definition_valid VTR_ASSERT_def
      simp del: append.simps split: option.split)

lemma rejected_powergated_buffer:
  assumes "\<not> (one_scalar_port (input_ports cm) \<and> one_scalar_port (output_ports cm))"
    and "valid_file_stream fp"
  shows "fst (print_spice_powergated_buffer_subckt ext fp module_id cm tm) = Inl AssertionViolation
    \<and> filter is_device_line
        (emitted fp (snd (print_spice_powergated_buffer_subckt ext fp module_id cm tm))) = []"
  using assms
  by (auto simp: print_spice_powergated_buffer_subckt_def subckt_definition_valid VTR_ASSERT_def
      simp del: append.simps split: option.split)

lemma subckt_invalid_stream:
  assumes "\<not> valid_file_stream fp"
  shows "print_spice_regular_inverter_subckt ext fp module_id cm tm = (Inr CMD_EXEC_FATAL_ERROR, fp)"
    and "print_spice_powergated_inverter_subckt ext fp module_id cm tm = (Inr CMD_EXEC_FATAL_ERROR, fp)"
    and "print_spice_regular_buffer_subckt ext fp module_id cm tm = (Inr CMD_EXEC_FATAL_ERROR, fp)"
    and "print_spice_powergated_buffer_subckt ext fp module_id cm tm = (Inr CMD_EXEC_FATAL_ERROR, fp)"
  using assms
  by (simp_all add: print_spice_regular_inverter_subckt_def print_spice_powergated_inverter_subckt_def
      print_spice_regular_buffer_subckt_def print_spice_powergated_buffer_subckt_def)

text \<open>
  Claim C9 (rejection of the precondition). A model that does not have exactly one input
  port of size 1 and exactly one output port of size 1 is rejected by each of the four
  subcircuit writers with an assertion, before any device instance line is written (only
  the \<^verbatim>\<open>.subckt\<close> line of a valid module precedes the assertion). The writers look
  at the model on a valid stream only: on a stream that is not valid they return the
  fatal status at once, and no line is written either.
\<close>

theorem port_precondition_rejected:
  assumes "\<not> ((\<exists>p. input_ports cm = [p] \<and> port_size p = 1)
              \<and> (\<exists>p. output_ports cm = [p] \<and> port_size p = 1))"
    and "emit = print_spice_regular_inverter_subckt
         \<or> emit = print_spice_powergated_inverter_subckt
         \<or> emit = print_spice_regular_buffer_subckt
         \<or> emit = print_spice_powergated_buffer_subckt"
  shows "(valid_file_stream fp \<longrightarrow> fst (emit ext fp module_id cm tm) = Inl AssertionViolation)
       \<and> (\<not> valid_file_stream fp \<longrightarrow> emit ext fp module_id cm tm = (Inr CMD_EXEC_FATAL_ERROR, fp))
       \<and> filter is_device_line (emitted fp (snd (emit ext fp module_id cm tm))) = []"
proof -
  have p: "\<not> (one_scalar_port (input_ports cm) \<and> one_scalar_port (output_ports cm))"
    using assms(1) by (simp add: one_scalar_port_iff)
  show ?thesis
  proof (cases "valid_file_stream fp")
    case True
    from assms(2) show ?thesis
      by (elim disjE)
        (simp_all add: True rejected_regular_inverter[OF p True]
          rejected_powergated_inverter[OF p True] rejected_regular_buffer[OF p True]
          rejected_powergated_buffer[OF p True])
  next
    case False
    from assms(2) show ?thesis
      by (elim disjE) (simp_all add: False subckt_invalid_stream[OF False])
  qed
qed

theorem port_precondition_rejected_witness:
  "print_spice_regular_inverter_subckt sample_externals sample_fstream (Some sample_module)
     (sample_inverter\<lparr>input_ports :=
        [\<lparr>port_prefix = ''in'', port_size = 1, pins = [0]\<rparr>,
         \<lparr>port_prefix = ''in2'', port_size = 1, pins = [0]\<rparr>]\<rparr>)
     sample_tech_model
   = (Inl AssertionViolation, sample_fstream\<lparr>written := [''.subckt INVTX1 in out'']\<rparr>)
   \<and> fst (print_spice_powergated_buffer_subckt sample_externals sample_fstream
            (Some sample_module)
            (sample_powergated_buffer\<lparr>output_ports :=
               [\<lparr>port_prefix = ''out'', port_size = 2, pins = [0, 1]\<rparr>]\<rparr>)
            sample_tech_model)
     = Inl AssertionViolation"
proof -
  have v: "valid_file_stream sample_fstream"
    by (simp add: valid_file_stream_def sample_fstream_def)
  have a: "print_spice_regular_inverter_subckt sample_externals sample_fstream
     (Some sample_module)
     (sample_inverter\<lparr>input_ports :=
        [\<lparr>port_prefix = ''in'', port_size = 1, pins = [0]\<rparr>,
         \<lparr>port_prefix = ''in2'', port_size = 1, pins = [0]\<rparr>]\<rparr>)
     sample_tech_model
   = (Inl AssertionViolation, sample_fstream\<lparr>written := [''.subckt INVTX1 in out'']\<rparr>)"
    by code_simp
  have "fst (print_spice_powergated_buffer_subckt sample_externals sample_fstream
            (Some sample_module)
            (sample_powergated_buffer\<lparr>output_ports :=
               [\<lparr>port_prefix = ''out'', port_size = 2, pins = [0, 1]\<rparr>]\<rparr>)
            sample_tech_model)
     = Inl AssertionViolation"
    using v port_precondition_rejected
      [where emit = print_spice_powergated_buffer_subckt and fp = sample_fstream
         and ext = sample_externals and module_id = "Some sample_module"
         and tm = sample_tech_model
         and cm = "sample_powergated_buffer\<lparr>output_ports :=
               [\<lparr>port_prefix = ''out'', port_size = 2, pins = [0, 1]\<rparr>]\<rparr>"]
    by simp
  with a show ?thesis by simp
qed

subsection \<open>The loop over the circuit models\<close>

lemma status_not_fatal [simp]: "(CMD_EXEC_FATAL_ERROR \<noteq> st) = (st = CMD_EXEC_SUCCESS)"
  by (cases st) simp_all

lemma essential_gates_loop_append:
  "essential_gates_loop ext mm tlib binding (before @ rest) CMD_EXEC_SUCCESS fp =
     (case essential_gates_loop ext mm tlib binding before CMD_EXEC_SUCCESS fp of
        (LoopEnd CMD_EXEC_SUCCESS, fp') \<Rightarrow>
          essential_gates_loop ext mm tlib binding rest CMD_EXEC_SUCCESS fp'
      | r \<Rightarrow> r)"
proof (induction before arbitrary: fp)
  case Nil
  then show ?case by simp
next
  case (Cons cm before)
  show ?case
    by (simp add: Cons.IH Let_def split: option.split sum.split prod.split status.split)
qed


lemma written_fclose [simp]: "written (fclose fp) = written fp"
  by (simp add: fclose_def)

lemma written_close_and_register [simp]:
  "written (fst (snd (close_and_register ext fp nm fname st))) = written fp"
  by (simp add: close_and_register_def Let_def split: prod.split option.split)

lemma essential_gates_loop_unbound:
  assumes "model_circuit_netlist m = []"
    and "model_type m = CIRCUIT_MODEL_INVBUF \<or> model_type m = CIRCUIT_MODEL_PASSGATE
         \<or> model_type m = CIRCUIT_MODEL_GATE"
    and "binding (model_id m) = None"
  shows "essential_gates_loop ext mm tlib binding (m # rest) st fp
         = (LoopReturn CMD_EXEC_FATAL_ERROR, fp)"
  using assms by auto


lemma essential_gates_loop_return:
  "essential_gates_loop ext mm tlib binding ms st fp = (LoopReturn s, fp')
   \<Longrightarrow> s = CMD_EXEC_FATAL_ERROR"
proof (induction ms arbitrary: st fp)
  case Nil
  then show ?case by simp
next
  case (Cons cm ms)
  then show ?case
    by (auto simp: Let_def split: if_splits option.splits sum.splits prod.splits)
qed

lemma fst_close_and_register:
  "fst (close_and_register ext fp nm fname st) = Inr s \<Longrightarrow> s = st"
  by (auto simp: close_and_register_def Let_def split: prod.splits option.splits)

text \<open>
  Claim C6 (a missing technology binding is fatal). Let \<open>m\<close> be a model of type INVBUF,
  PASSGATE or GATE without an external netlist and without an entry in the binding map.
  When the loop has processed the models before \<open>m\<close> to the end,
  \<^verbatim>\<open>print_spice_essential_gates\<close> returns the fatal status at \<open>m\<close>: the stream is
  the one the models before \<open>m\<close> have left and the netlist manager is unchanged. In
  every case the text written for the library is the text written for the models before
  \<open>m\<close> alone: nothing is written for \<open>m\<close> or for a model after it; and the function
  never returns the success status.
\<close>

theorem missing_binding_is_fatal:
  assumes "model_circuit_netlist m = []"
    and "model_type m = CIRCUIT_MODEL_INVBUF \<or> model_type m = CIRCUIT_MODEL_PASSGATE
         \<or> model_type m = CIRCUIT_MODEL_GATE"
    and "circuit_tech_binding (model_id m) = None"
  shows "(\<forall>fp'. essential_gates_loop ext module_manager tech_lib circuit_tech_binding before
                CMD_EXEC_SUCCESS (put_lines fp0 (spice_file_header ext ''Essential gates''))
              = (LoopEnd CMD_EXEC_SUCCESS, fp')
            \<longrightarrow> print_spice_essential_gates ext netlist_manager module_manager
                  (before @ m # after) tech_lib circuit_tech_binding submodule_dir fp0
                = (Inr CMD_EXEC_FATAL_ERROR, fp', netlist_manager))
       \<and> written (fst (snd (print_spice_essential_gates ext netlist_manager module_manager
                              (before @ m # after) tech_lib circuit_tech_binding
                              submodule_dir fp0)))
         = written (fst (snd (print_spice_essential_gates ext netlist_manager module_manager
                                before tech_lib circuit_tech_binding submodule_dir fp0)))
       \<and> fst (print_spice_essential_gates ext netlist_manager module_manager
                (before @ m # after) tech_lib circuit_tech_binding submodule_dir fp0)
         \<noteq> Inr CMD_EXEC_SUCCESS"
proof -
  let ?fp = "put_lines fp0 (spice_file_header ext ''Essential gates'')"
  let ?loop = "essential_gates_loop ext module_manager tech_lib circuit_tech_binding"
  have u: "\<And>fp. ?loop (m # after) CMD_EXEC_SUCCESS fp = (LoopReturn CMD_EXEC_FATAL_ERROR, fp)"
    by (rule essential_gates_loop_unbound[where binding = circuit_tech_binding, OF assms])
  have a: "?loop (before @ m # after) CMD_EXEC_SUCCESS ?fp =
     (case ?loop before CMD_EXEC_SUCCESS ?fp of
        (LoopEnd CMD_EXEC_SUCCESS, fp') \<Rightarrow> (LoopReturn CMD_EXEC_FATAL_ERROR, fp')
      | r \<Rightarrow> r)"
    by (simp add: essential_gates_loop_append u del: essential_gates_loop.simps
        split: prod.split loop_exit.split status.split)
  have r: "fst (print_spice_essential_gates ext netlist_manager module_manager
                (before @ m # after) tech_lib circuit_tech_binding submodule_dir fp0)
         \<noteq> Inr CMD_EXEC_SUCCESS"
    unfolding print_spice_essential_gates_def Let_def a
    by (auto split: prod.splits loop_exit.splits status.splits
        dest: essential_gates_loop_return fst_close_and_register)
  have w: "(\<forall>fp'. ?loop before CMD_EXEC_SUCCESS ?fp = (LoopEnd CMD_EXEC_SUCCESS, fp')
            \<longrightarrow> print_spice_essential_gates ext netlist_manager module_manager
                  (before @ m # after) tech_lib circuit_tech_binding submodule_dir fp0
                = (Inr CMD_EXEC_FATAL_ERROR, fp', netlist_manager))
       \<and> written (fst (snd (print_spice_essential_gates ext netlist_manager module_manager
                              (before @ m # after) tech_lib circuit_tech_binding
                              submodule_dir fp0)))
         = written (fst (snd (print_spice_essential_gates ext netlist_manager module_manager
                                before tech_lib circuit_tech_binding submodule_dir fp0)))"
    unfolding print_spice_essential_gates_def Let_def a
    by (auto split: prod.split loop_exit.split status.split)
  from w r show ?thesis by blast
qed

theorem missing_binding_is_fatal_witness:
  "print_spice_essential_gates sample_externals [] [sample_module]
     ([sample_inverter]
      @ sample_inverter\<lparr>model_id := 1, model_name := ''AND2'', model_type := CIRCUIT_MODEL_GATE\<rparr>
      # [sample_buffer\<lparr>model_id := 2\<rparr>])
     [sample_tech_model] [0 \<mapsto> 0, 2 \<mapsto> 0] ''./'' sample_fstream
   = (Inr CMD_EXEC_FATAL_ERROR,
      \<lparr>is_open = True, good = True,
       written =
         [''* Essential gates'',
          ''.subckt INVTX1 in out'',
          ''Xpmos_0 out in LVDD LVDD pch_wrapper W=2/1'',
          ''Xnmos_0 out in LGND LGND nch_wrapper W=1/1'',
          ''.ends'']\<rparr>,
      [])"
proof -
  have b: "essential_gates_loop sample_externals [sample_module] [sample_tech_model]
             [0 \<mapsto> 0, 2 \<mapsto> 0] [sample_inverter] CMD_EXEC_SUCCESS
             (put_lines sample_fstream (spice_file_header sample_externals ''Essential gates''))
     = (LoopEnd CMD_EXEC_SUCCESS,
        \<lparr>is_open = True, good = True,
         written =
           [''* Essential gates'',
            ''.subckt INVTX1 in out'',
            ''Xpmos_0 out in LVDD LVDD pch_wrapper W=2/1'',
            ''Xnmos_0 out in LGND LGND nch_wrapper W=1/1'',
            ''.ends'']\<rparr>)"
    by code_simp
  show ?thesis
    using missing_binding_is_fatal
      [where m = "sample_inverter\<lparr>model_id := 1, model_name := ''AND2'',
                                  model_type := CIRCUIT_MODEL_GATE\<rparr>"
         and circuit_tech_binding = "[0 \<mapsto> 0, 2 \<mapsto> 0]" and ext = sample_externals
         and module_manager = "[sample_module]" and tech_lib = "[sample_tech_model]"
         and before = "[sample_inverter]" and ?fp0.0 = sample_fstream
         and netlist_manager = "[]" and after = "[sample_buffer\<lparr>model_id := 2\<rparr>]"
         and submodule_dir = "''./''"] b
    by (simp add: sample_inverter_def)
qed




subsection \<open>The lines of the width bins of a regular stage\<close>

text \<open>On a valid stream the bin loop of a regular stage writes one transistor for every
  entry of \<open>bin_widths\<close>, in order, with the width of the bin as its \<^verbatim>\<open>W\<close>.\<close>

lemma regular_pmos_bins_written:
  assumes "valid_file_stream fp"
  shows "for_each
           (\<lambda>(ibin, curr_bin_width) fp'.
              print_spice_regular_inverter_pmos_modeling ext fp' (postfix ibin) inn out tm
                curr_bin_width)
           (enumerate 0 (bin_widths total_width max_width)) fp
         = (Inr CMD_EXEC_SUCCESS,
            fp\<lparr>written := written fp @
               map (\<lambda>(ibin, curr_bin_width).
                      ''Xpmos_'' @ postfix ibin @ '' '' @ out @ '' '' @ inn @ '' ''
                      @ ''LVDD '' @ ''LVDD ''
                      @ transistor_model_name tm TECH_LIB_TRANSISTOR_PMOS
                      @ TRANSISTOR_WRAPPER_POSTFIX ext
                      @ '' W='' @ float_text ext curr_bin_width)
                   (enumerate 0 (bin_widths total_width max_width))\<rparr>)"
proof -
  have "for_each
           (\<lambda>(ibin, curr_bin_width) fp'.
              print_spice_regular_inverter_pmos_modeling ext fp' (postfix ibin) inn out tm
                curr_bin_width)
           (enumerate 0 (bin_widths total_width max_width)) fp
         = (Inr CMD_EXEC_SUCCESS,
            fp\<lparr>written := written fp @
               concat (map (\<lambda>(ibin, curr_bin_width).
                      [''Xpmos_'' @ postfix ibin @ '' '' @ out @ '' '' @ inn @ '' ''
                      @ ''LVDD '' @ ''LVDD ''
                      @ transistor_model_name tm TECH_LIB_TRANSISTOR_PMOS
                      @ TRANSISTOR_WRAPPER_POSTFIX ext
                      @ '' W='' @ float_text ext curr_bin_width])
                   (enumerate 0 (bin_widths total_width max_width)))\<rparr>)"
    by (rule for_each_writes[OF _ assms])
       (simp add: print_spice_regular_inverter_pmos_modeling_def put_line_valid split: prod.split)
  moreover have "\<And>f xs. concat (map (\<lambda>x. [f x]) xs) = map f xs"
    by (induct_tac xs) simp_all
  ultimately show ?thesis
    by (simp add: case_prod_unfold)
qed

lemma regular_nmos_bins_written:
  assumes "valid_file_stream fp"
  shows "for_each
           (\<lambda>(ibin, curr_bin_width) fp'.
              print_spice_regular_inverter_nmos_modeling ext fp' (postfix ibin) inn out tm
                curr_bin_width)
           (enumerate 0 (bin_widths total_width max_width)) fp
         = (Inr CMD_EXEC_SUCCESS,
            fp\<lparr>written := written fp @
               map (\<lambda>(ibin, curr_bin_width).
                      ''Xnmos_'' @ postfix ibin @ '' '' @ out @ '' '' @ inn @ '' ''
                      @ ''LGND '' @ ''LGND ''
                      @ transistor_model_name tm TECH_LIB_TRANSISTOR_NMOS
                      @ TRANSISTOR_WRAPPER_POSTFIX ext
                      @ '' W='' @ float_text ext curr_bin_width)
                   (enumerate 0 (bin_widths total_width max_width))\<rparr>)"
proof -
  have "for_each
           (\<lambda>(ibin, curr_bin_width) fp'.
              print_spice_regular_inverter_nmos_modeling ext fp' (postfix ibin) inn out tm
                curr_bin_width)
           (enumerate 0 (bin_widths total_width max_width)) fp
         = (Inr CMD_EXEC_SUCCESS,
            fp\<lparr>written := written fp @
               concat (map (\<lambda>(ibin, curr_bin_width).
                      [''Xnmos_'' @ postfix ibin @ '' '' @ out @ '' '' @ inn @ '' ''
                      @ ''LGND '' @ ''LGND ''
                      @ transistor_model_name tm TECH_LIB_TRANSISTOR_NMOS
                      @ TRANSISTOR_WRAPPER_POSTFIX ext
                      @ '' W='' @ float_text ext curr_bin_width])
                   (enumerate 0 (bin_widths total_width max_width)))\<rparr>)"
    by (rule for_each_writes[OF _ assms])
       (simp add: print_spice_regular_inverter_nmos_modeling_def put_line_valid split: prod.split)
  moreover have "\<And>f xs. concat (map (\<lambda>x. [f x]) xs) = map f xs"
    by (induct_tac xs) simp_all
  ultimately show ?thesis
    by (simp add: case_prod_unfold)
qed

end
